theory Spec2Isabelle
  imports Main "HOL-Library.AList"
begin

section \<open>JavaScript values\<close>

text \<open>
  The adapter handles JSON payloads and JavaScript values of no fixed type. They are
  modelled by one datatype. Numbers are integers: the code copies and compares the
  numbers it receives and does arithmetic only on hardware indices.
\<close>

datatype jsval =
    Undefined
  | Null
  | Bool bool
  | Num int
  | Str string
  | Arr "jsval list"
  | Obj "(string \<times> jsval) list"

text \<open>A thrown JavaScript error: the fields the code inspects (\<open>type\<close>, \<open>code\<close>)
  and its message.\<close>

datatype js_error = JsError (err_type: "string option") (err_code: "string option") (err_message: string)

definition TypeError :: js_error where
  "TypeError = JsError None None ''TypeError''"

text \<open>Truthiness, as \<open>!v\<close> and \<open>a || b\<close> and \<open>if(v)\<close> read it.\<close>

fun truthy :: "jsval \<Rightarrow> bool" where
  "truthy Undefined = False"
| "truthy Null = False"
| "truthy (Bool b) = b"
| "truthy (Num n) = (n \<noteq> 0)"
| "truthy (Str s) = (s \<noteq> [])"
| "truthy (Arr xs) = True"
| "truthy (Obj kvs) = True"

text \<open>\<open>a || b\<close>\<close>

definition js_or :: "jsval \<Rightarrow> jsval \<Rightarrow> jsval" where
  "js_or a b = (if truthy a then a else b)"

text \<open>Member access \<open>v.name\<close>: a TypeError on \<open>undefined\<close> and \<open>null\<close>, the member
  of an object, \<open>undefined\<close> where the object has none. The names the code reads
  (\<open>ip\<close>, \<open>status\<close>, \<open>target\<close>, ...) are no members of strings, numbers, booleans or
  arrays.\<close>

fun get_member :: "jsval \<Rightarrow> string \<Rightarrow> js_error + jsval" where
  "get_member Undefined k = Inl TypeError"
| "get_member Null k = Inl TypeError"
| "get_member (Obj kvs) k = (case map_of kvs k of Some v \<Rightarrow> Inr v | None \<Rightarrow> Inr Undefined)"
| "get_member v k = Inr Undefined"

subsection \<open>Numbers as text\<close>

definition digit_char :: "nat \<Rightarrow> char" where
  "digit_char n = (''0123456789abcdefghijklmnopqrstuvwxyz'' ! n)"

text \<open>\<open>n.toString(radix)\<close> for a natural number; the radix is 10 or 16 in the code.\<close>

fun show_radix :: "nat \<Rightarrow> nat \<Rightarrow> string" where
  "show_radix b n =
     (if b < 2 \<or> n < b then [digit_char n]
      else show_radix b (n div b) @ [digit_char (n mod b)])"

declare show_radix.simps [simp del]

definition show_int_radix :: "nat \<Rightarrow> int \<Rightarrow> string" where
  "show_int_radix b i = (if i < 0 then CHR ''-'' # show_radix b (nat (- i)) else show_radix b (nat i))"

text \<open>A number that may be \<open>NaN\<close> (\<open>None\<close>), as \<open>parseInt\<close> returns it.\<close>

definition show_num :: "int option \<Rightarrow> string" where
  "show_num n = (case n of None \<Rightarrow> ''NaN'' | Some i \<Rightarrow> show_int_radix 10 i)"

subsection \<open>Strings\<close>

definition startsWith :: "string \<Rightarrow> string \<Rightarrow> bool" where
  "startsWith s p = (take (length p) s = p)"

definition endsWith :: "string \<Rightarrow> string \<Rightarrow> bool" where
  "endsWith s p = (length p \<le> length s \<and> drop (length s - length p) s = p)"

text \<open>\<open>s.split(c)\<close> for a one-character separator: never empty.\<close>

fun split_on :: "char \<Rightarrow> string \<Rightarrow> string list" where
  "split_on c [] = [[]]"
| "split_on c (x # xs) =
     (if x = c then [] # split_on c xs
      else (case split_on c xs of [] \<Rightarrow> [[x]] | w # ws \<Rightarrow> (x # w) # ws))"

text \<open>\<open>parts.join(c)\<close>\<close>

fun join_with :: "char \<Rightarrow> string list \<Rightarrow> string" where
  "join_with c [] = []"
| "join_with c [w] = w"
| "join_with c (w # ws) = w @ c # join_with c ws"

text \<open>String conversion, as a template literal and a property key do it: an array is
  its elements joined by commas, with \<open>undefined\<close> and \<open>null\<close> elements left empty.\<close>

fun to_string :: "jsval \<Rightarrow> string" where
  "to_string Undefined = ''undefined''"
| "to_string Null = ''null''"
| "to_string (Bool b) = (if b then ''true'' else ''false'')"
| "to_string (Num n) = show_int_radix 10 n"
| "to_string (Str s) = s"
| "to_string (Arr xs) =
     join_with CHR '','' (map (\<lambda>v. if v = Undefined \<or> v = Null then [] else to_string v) xs)"
| "to_string (Obj kvs) = ''[object Object]''"

text \<open>\<open>s.replace(pat, new)\<close> with a string pattern: the first occurrence only.\<close>

fun replace_first :: "string \<Rightarrow> string \<Rightarrow> string \<Rightarrow> string" where
  "replace_first pat new [] = (if pat = [] then new else [])"
| "replace_first pat new (c # cs) =
     (if startsWith (c # cs) pat then new @ drop (length pat) (c # cs)
      else c # replace_first pat new cs)"

text \<open>\<open>s.padStart(n, c)\<close>\<close>

definition padStart :: "nat \<Rightarrow> char \<Rightarrow> string \<Rightarrow> string" where
  "padStart n c s = replicate (n - length s) c @ s"

text \<open>\<open>parseInt\<close>: leading white space, an optional sign, then the longest run of
  digits of the radix; \<open>NaN\<close> (\<open>None\<close>) when there is no digit. Without a radix
  argument a \<open>0x\<close> prefix selects radix 16.\<close>

definition is_space :: "char \<Rightarrow> bool" where
  "is_space c = (c \<in> set [CHR '' '', CHR 0x09, CHR 0x0A, CHR 0x0B, CHR 0x0C, CHR 0x0D])"

definition digit_of :: "nat \<Rightarrow> char \<Rightarrow> nat option" where
  "digit_of b c =
     (let k = of_char c :: nat;
          v = (if 48 \<le> k \<and> k \<le> 57 then k - 48
               else if 97 \<le> k \<and> k \<le> 122 then k - 87
               else if 65 \<le> k \<and> k \<le> 90 then k - 55
               else b)
      in if v < b then Some v else None)"

fun read_digits :: "nat \<Rightarrow> nat \<Rightarrow> string \<Rightarrow> nat" where
  "read_digits b acc [] = acc"
| "read_digits b acc (c # cs) =
     (case digit_of b c of None \<Rightarrow> acc | Some v \<Rightarrow> read_digits b (acc * b + v) cs)"

definition read_unsigned :: "nat \<Rightarrow> string \<Rightarrow> nat option" where
  "read_unsigned b s =
     (case s of [] \<Rightarrow> None
      | c # cs \<Rightarrow> (if digit_of b c = None then None else Some (read_digits b 0 s)))"

definition read_signed :: "(string \<Rightarrow> nat option) \<Rightarrow> string \<Rightarrow> int option" where
  "read_signed rd s =
     (let t = dropWhile is_space s in
      case t of
        [] \<Rightarrow> None
      | c # cs \<Rightarrow>
          (if c = CHR ''-'' then map_option (\<lambda>n. - int n) (rd cs)
           else if c = CHR ''+'' then map_option int (rd cs)
           else map_option int (rd t)))"

text \<open>\<open>parseInt(s, 10)\<close>\<close>

definition parseInt10 :: "string \<Rightarrow> int option" where
  "parseInt10 s = read_signed (read_unsigned 10) s"

text \<open>\<open>parseInt(s)\<close>\<close>

definition parseInt :: "string \<Rightarrow> int option" where
  "parseInt s =
     read_signed (\<lambda>t. if startsWith t ''0x'' \<or> startsWith t ''0X''
                      then read_unsigned 16 (drop 2 t) else read_unsigned 10 t) s"

section \<open>The device\<close>

text \<open>
  A property of the gateway's container: the fields the adapter reads and writes.
  \<open>prop_visible\<close> is a JavaScript value because the code computes it with \<open>&&\<close>
  and tests it with \<open>=== false\<close>.
\<close>

record property =
  prop_title :: string
  prop_type :: string
  prop_value :: jsval
  prop_visible :: jsval
  prop_readOnly :: bool
  prop_minimum :: jsval
  prop_maximum :: jsval

record action =
  act_title :: string
  act_visible :: jsval

text \<open>
  The device object. \<open>properties\<close>, \<open>actions\<close> and \<open>events\<close> are the container's
  maps, in insertion order, with distinct keys. \<open>fired\<close> is the trace of the events
  handed to \<open>eventNotify\<close> and \<open>requests\<close> the trace of the (method, URL) pairs
  handed to \<open>fetch\<close>, both oldest first. \<open>connected\<close> holds the truthiness of the
  field, which the code only reads through \<open>!this.connected\<close>.
\<close>

record dingz =
  address :: jsval
  mac :: string
  connected :: bool
  deviceType :: jsval
  shade1 :: bool
  shade2 :: bool
  dimmerGroup1 :: bool
  dimmerGroup2 :: bool
  motionSensor :: bool
  thermostat :: bool
  thermostatOutput :: "int option"
  types :: "string list"
  properties :: "(string \<times> property) list"
  actions :: "(string \<times> action) list"
  events :: "(string \<times> string) list"
  fired :: "string list"
  requests :: "(string \<times> string) list"

subsection \<open>Capability resolution (the constructor's \<open>device\<close> query)\<close>

record device_info =
  dip_config :: int
  has_pir :: bool

text \<open>
  \<open>info[this.mac]\<close>, then the four capability flags from \<open>dip_config\<close>. Reading
  \<open>dip_config\<close> of a missing entry is a TypeError.
\<close>

definition resolve_capabilities :: "(string \<rightharpoonup> device_info) \<Rightarrow> dingz \<Rightarrow> js_error + dingz" where
  "resolve_capabilities info d =
     (case info (mac d) of
        None \<Rightarrow> Inl TypeError
      | Some deviceInfo \<Rightarrow>
          (let dipConfig = dip_config deviceInfo in
           Inr (d\<lparr> shade1 := (dipConfig = 0 \<or> dipConfig = 2),
                   shade2 := (dipConfig \<le> 1),
                   dimmerGroup1 := (dipConfig = 1 \<or> dipConfig = 3),
                   dimmerGroup2 := (dipConfig \<ge> 2),
                   motionSensor := has_pir deviceInfo \<rparr>)))"

text \<open>The device as the constructor leaves it before any query has answered.\<close>

definition new_dingz :: "string \<Rightarrow> jsval \<Rightarrow> dingz" where
  "new_dingz m a =
     \<lparr> address = a, mac = m, connected = True, deviceType = Undefined,
       shade1 = False, shade2 = False, dimmerGroup1 = False, dimmerGroup2 = False,
       motionSensor = False, thermostat = False, thermostatOutput = None,
       types = [''ColorControl'', ''PushButton'', ''TemperatureSensor''],
       properties = [], actions = [], events = [], fired = [], requests = [] \<rparr>"

subsection \<open>Effects\<close>

text \<open>
  A method either returns or throws; what it has written to the device before a throw
  stays written, so both outcomes carry the device.
\<close>

datatype outcome = Done dingz | Threw js_error dingz

fun state_of :: "outcome \<Rightarrow> dingz" where
  "state_of (Done d) = d"
| "state_of (Threw e d) = d"

text \<open>A \<open>for ... of\<close> loop: the body runs on each element in turn and a throw ends it.\<close>

fun for_each :: "('a \<Rightarrow> dingz \<Rightarrow> outcome) \<Rightarrow> 'a list \<Rightarrow> dingz \<Rightarrow> outcome" where
  "for_each body [] d = Done d"
| "for_each body (x # xs) d =
     (case body x d of Done d' \<Rightarrow> for_each body xs d' | Threw e d' \<Rightarrow> Threw e d')"

text \<open>A block of statements.\<close>

definition run_steps :: "(dingz \<Rightarrow> outcome) list \<Rightarrow> dingz \<Rightarrow> outcome" where
  "run_steps steps d = for_each (\<lambda>step. step) steps d"

subsection \<open>The property store\<close>

definition findProperty :: "string \<Rightarrow> dingz \<Rightarrow> property option" where
  "findProperty name d = map_of (properties d) name"

definition hasProperty :: "string \<Rightarrow> dingz \<Rightarrow> bool" where
  "hasProperty name d = (findProperty name d \<noteq> None)"

text \<open>
  \<open>setCachedValueAndNotify\<close> belongs to the gateway's property container: the cached
  value becomes the value handed in.
\<close>

definition setCachedValueAndNotify :: "string \<Rightarrow> jsval \<Rightarrow> dingz \<Rightarrow> dingz" where
  "setCachedValueAndNotify name v d =
     d\<lparr> properties := AList.map_entry name (\<lambda>p. p\<lparr> prop_value := v \<rparr>) (properties d) \<rparr>"

text \<open>\<open>this.findProperty(name).setCachedValueAndNotify(arg)\<close>: a TypeError when the
  device has no such property, and the error of the argument expression when that
  throws.\<close>

definition set_value :: "string \<Rightarrow> js_error + jsval \<Rightarrow> dingz \<Rightarrow> outcome" where
  "set_value name arg d =
     (case findProperty name d of
        None \<Rightarrow> Threw TypeError d
      | Some p \<Rightarrow> (case arg of Inl e \<Rightarrow> Threw e d | Inr v \<Rightarrow> Done (setCachedValueAndNotify name v d)))"

text \<open>\<open>this.findProperty(name)?.setCachedValueAndNotify(arg)\<close>: nothing happens, and
  the argument is not evaluated, when the device has no such property.\<close>

definition set_value_opt :: "string \<Rightarrow> js_error + jsval \<Rightarrow> dingz \<Rightarrow> outcome" where
  "set_value_opt name arg d =
     (case findProperty name d of
        None \<Rightarrow> Done d
      | Some p \<Rightarrow> (case arg of Inl e \<Rightarrow> Threw e d | Inr v \<Rightarrow> Done (setCachedValueAndNotify name v d)))"

text \<open>\<open>this.eventNotify(new Event(this, name))\<close>\<close>

definition eventNotify :: "string \<Rightarrow> dingz \<Rightarrow> outcome" where
  "eventNotify name d = Done (d\<lparr> fired := fired d @ [name] \<rparr>)"

subsection \<open>Connectivity and the HTTP call\<close>

definition connectedNotify :: "bool \<Rightarrow> dingz \<Rightarrow> dingz" where
  "connectedNotify state d = d\<lparr> connected := state \<rparr>"

text \<open>
  What \<open>fetch\<close> gives back: a rejection, or a response whose body can be read as text
  or as JSON, each of which can fail in turn. \<open>'j\<close> is the type of the decoded body.
\<close>

record 'j response =
  resp_ok :: bool
  resp_status :: nat
  resp_text :: "js_error + string"
  resp_json :: "js_error + 'j"

type_synonym 'j fetch = "string \<Rightarrow> string \<Rightarrow> js_error + 'j response"

text \<open>The \<open>catch\<close> block of \<open>apiCall\<close>.\<close>

definition apiCall_catch :: "js_error \<Rightarrow> dingz \<Rightarrow> dingz \<times> (js_error + 'j option)" where
  "apiCall_catch error d =
     (if err_type error = Some ''system''
         \<and> (err_code error = Some ''ETIMEDOUT'' \<or> err_code error = Some ''EHOSTUNREACH'')
      then (connectedNotify False d, Inr None)
      else (d, Inl error))"

text \<open>
  \<open>apiCall(path, method)\<close>: the device afterwards, and the rejection (\<open>Inl\<close>) or the
  value the call resolves to (\<open>None\<close> for \<open>undefined\<close>). \<open>fetch\<close> and
  \<open>response.text()\<close> are awaited inside the \<open>try\<close>, so their rejections reach the
  \<open>catch\<close> block. \<open>return response.json()\<close> is not awaited: the promise is handed
  back as it is and its rejection becomes the rejection of the call.
\<close>

definition apiCall :: "'j fetch \<Rightarrow> string \<Rightarrow> string \<Rightarrow> dingz \<Rightarrow> dingz \<times> (js_error + 'j option)" where
  "apiCall fetch path method d =
     (if \<not> truthy (address d) then (d, Inr None)
      else
        (let url = ''http://'' @ to_string (address d) @ ''/api/v1/'' @ path;
             d1 = d\<lparr> requests := requests d @ [(method, url)] \<rparr>
         in case fetch method url of
              Inl error \<Rightarrow> apiCall_catch error d1
            | Inr response \<Rightarrow>
                (if resp_ok response \<and> resp_status response < 400 then
                   (if resp_status response \<noteq> 204 \<and> method \<noteq> ''POST''
                    then (case resp_json response of
                            Inl error \<Rightarrow> (d1, Inl error)
                          | Inr body \<Rightarrow> (d1, Inr (Some body)))
                    else (d1, Inr None))
                 else
                   (case resp_text response of
                      Inl error \<Rightarrow> apiCall_catch error d1
                    | Inr error_text \<Rightarrow>
                        apiCall_catch
                          (JsError None None (show_radix 10 (resp_status response) @ '': '' @ error_text))
                          d1))))"

subsection \<open>Building the schema (the constructor after its queries)\<close>

definition new_property :: "string \<Rightarrow> string \<Rightarrow> jsval \<Rightarrow> bool \<Rightarrow> jsval \<Rightarrow> jsval \<Rightarrow> property" where
  "new_property t ty vis ro lo hi =
     \<lparr> prop_title = t, prop_type = ty, prop_value = Undefined, prop_visible = vis,
       prop_readOnly = ro, prop_minimum = lo, prop_maximum = hi \<rparr>"

definition addProperty :: "string \<Rightarrow> property \<Rightarrow> dingz \<Rightarrow> dingz" where
  "addProperty name p d = d\<lparr> properties := AList.update name p (properties d) \<rparr>"

definition addAction :: "string \<Rightarrow> string \<Rightarrow> dingz \<Rightarrow> dingz" where
  "addAction name t d =
     d\<lparr> actions := AList.update name \<lparr> act_title = t, act_visible = Undefined \<rparr> (actions d) \<rparr>"

definition addEvent :: "string \<Rightarrow> string \<Rightarrow> dingz \<Rightarrow> dingz" where
  "addEvent name t d = d\<lparr> events := AList.update name t (events d) \<rparr>"

definition push_type :: "string \<Rightarrow> dingz \<Rightarrow> dingz" where
  "push_type t d = d\<lparr> types := types d @ [t] \<rparr>"

definition addKey :: "int \<Rightarrow> dingz \<Rightarrow> dingz" where
  "addKey index d =
     (let n = show_int_radix 10 index; keyID = ''key'' @ n in
      (addEvent (keyID @ ''long'') (''Key '' @ n @ '' long press'')
       \<circ> addEvent (keyID @ ''quadruple'') (''Key '' @ n @ '' quadruple press'')
       \<circ> addEvent (keyID @ ''tripple'') (''Key '' @ n @ '' tripple press'')
       \<circ> addEvent (keyID @ ''double'') (''Key '' @ n @ '' double press'')
       \<circ> addEvent (keyID @ ''single'') (''Key '' @ n @ '' single press'')
       \<circ> addProperty keyID (new_property (''Key '' @ n) ''boolean'' (Bool True) True Undefined Undefined)) d)"

definition addDimmer :: "int \<Rightarrow> dingz \<Rightarrow> dingz" where
  "addDimmer index d =
     (let n = show_int_radix 10 index;
          dimmerID = ''dimmer'' @ n;
          visible = (Some (index - 1) \<noteq> thermostatOutput d);
          d1 = addProperty dimmerID
                 (new_property (''Dimmer '' @ n) ''boolean'' (Bool visible) False Undefined Undefined) d;
          d2 = addProperty (dimmerID @ ''Brightness'')
                 (new_property (''Dimmer '' @ n @ '' Brightness'') ''integer'' (Bool visible) False (Num 0) (Num 100)) d1;
          d3 = addProperty (dimmerID @ ''Power'')
                 (new_property (''Dimmer '' @ n @ '' Power'') ''number'' (Bool True) True (Num 0) (Num 300)) d2
      in if visible then addAction (dimmerID @ ''toggle'') (''Toggle dimmer '' @ n) d3 else d3)"

definition addShade :: "int \<Rightarrow> dingz \<Rightarrow> dingz" where
  "addShade index d =
     (let n = show_int_radix 10 index; shadeID = ''shade'' @ n in
      (addAction (shadeID @ ''stop'') (''Shade '' @ n @ '' stop'')
       \<circ> addAction (shadeID @ ''down'') (''Shade '' @ n @ '' down'')
       \<circ> addAction (shadeID @ ''up'') (''Shade '' @ n @ '' up'')
       \<circ> addProperty (shadeID @ ''Power'')
           (new_property (''Shade '' @ n @ '' Power'') ''number'' (Bool True) True (Num 0) (Num 300))
       \<circ> addProperty (shadeID @ ''Lamella'')
           (new_property (''Shade '' @ n @ '' Lamella'') ''integer'' (Bool True) False (Num 0) (Num 100))
       \<circ> addProperty shadeID
           (new_property (''Shade '' @ n @ '' Position'') ''integer'' (Bool True) False (Num 0) (Num 100))) d)"

definition only_if :: "bool \<Rightarrow> (dingz \<Rightarrow> dingz) \<Rightarrow> dingz \<Rightarrow> dingz" where
  "only_if b f d = (if b then f d else d)"

text \<open>The thermostat's properties; its valve power reuses the power property of the
  dimmer on the thermostat's output, or registers it when the device has none.\<close>

definition addThermostat :: "dingz \<Rightarrow> dingz" where
  "addThermostat d =
     (let d1 = addProperty ''targetTemperature''
                 (new_property ''Target Temperature'' ''number'' (Bool True) False (Num (- 55)) (Num 125)) d;
          d2 = addProperty ''thermostatMode''
                 (new_property ''Thermostat Mode'' ''string'' (Bool True) False Undefined Undefined) d1;
          d3 = addProperty ''thermostatState''
                 (new_property ''Thermostat State'' ''string'' (Bool True) True Undefined Undefined) d2;
          powerID = ''dimmer'' @ show_num (map_option (\<lambda>i. i + 1) (thermostatOutput d)) @ ''Power''
      in if \<not> hasProperty powerID d3
         then addProperty powerID
                (new_property ''Thermostat Valve Power'' ''number'' (Bool True) True (Num 0) (Num 300)) d3
         else d3\<lparr> properties :=
                AList.map_entry powerID (\<lambda>p. p\<lparr> prop_title := ''Thermostat Valve Power'' \<rparr>) (properties d3) \<rparr>)"

text \<open>The first \<open>then\<close> of the constructor, up to the detail queries.\<close>

definition build_schema :: "dingz \<Rightarrow> dingz" where
  "build_schema d =
     (only_if (thermostat d) addThermostat
      \<circ> only_if (motionSensor d)
          (addProperty ''motion'' (new_property ''Motion'' ''boolean'' (Bool True) True Undefined Undefined))
      \<circ> only_if (shade2 d) (addShade 2)
      \<circ> only_if (shade1 d) (addShade 1)
      \<circ> only_if (dimmerGroup2 d) (addDimmer 4 \<circ> addDimmer 3)
      \<circ> only_if (dimmerGroup1 d) (addDimmer 2 \<circ> addDimmer 1)
      \<circ> addKey 4 \<circ> addKey 3 \<circ> addKey 2 \<circ> addKey 1
      \<circ> addProperty ''temperature''
          (new_property ''Temperature'' ''number'' (Bool True) True Undefined Undefined)
      \<circ> addProperty ''lightLevel''
          (new_property ''Brightness'' ''integer'' (Bool True) True (Num 0) Undefined)
      \<circ> addProperty ''ledColor'' (new_property ''LED Color'' ''string'' (Bool True) False Undefined Undefined)
      \<circ> addProperty ''led'' (new_property ''LED'' ''boolean'' (Bool True) False Undefined Undefined)
      \<circ> only_if (thermostat d)
          (\<lambda>x. only_if (''EnergyMonitor'' \<notin> set (types x)) (push_type ''EnergyMonitor'') (push_type ''Thermostat'' x))
      \<circ> only_if (dimmerGroup1 d \<or> dimmerGroup2 d)
          (\<lambda>x. only_if (''EnergyMonitor'' \<notin> set (types x)) (push_type ''EnergyMonitor'') (push_type ''Light'' x))
      \<circ> only_if (shade1 d \<or> shade2 d) (push_type ''Shade'' \<circ> push_type ''EnergyMonitor'')
      \<circ> only_if (motionSensor d) (push_type ''MotionSensor'')) d"

subsection \<open>The detail configuration (the constructor's second stage)\<close>

record blind_config =
  blind_type :: string
  blind_min_value :: jsval
  blind_max_value :: jsval
  blind_name :: string

record dimmer_config =
  dimmer_active :: jsval
  dimmer_type :: string
  dimmer_name :: string

definition nth_opt :: "'a list \<Rightarrow> int \<Rightarrow> 'a option" where
  "nth_opt xs i = (if 0 \<le> i \<and> i < int (length xs) then Some (xs ! nat i) else None)"

definition set_prop_title :: "string \<Rightarrow> string \<Rightarrow> dingz \<Rightarrow> outcome" where
  "set_prop_title name t d =
     (case findProperty name d of
        None \<Rightarrow> Threw TypeError d
      | Some p \<Rightarrow> Done (d\<lparr> properties := AList.map_entry name (\<lambda>p. p\<lparr> prop_title := t \<rparr>) (properties d) \<rparr>))"

definition set_prop_visible :: "string \<Rightarrow> jsval \<Rightarrow> dingz \<Rightarrow> outcome" where
  "set_prop_visible name v d =
     (case findProperty name d of
        None \<Rightarrow> Threw TypeError d
      | Some p \<Rightarrow> Done (d\<lparr> properties := AList.map_entry name (\<lambda>p. p\<lparr> prop_visible := v \<rparr>) (properties d) \<rparr>))"

definition set_prop_bounds :: "string \<Rightarrow> jsval \<Rightarrow> jsval \<Rightarrow> dingz \<Rightarrow> outcome" where
  "set_prop_bounds name lo hi d =
     (case findProperty name d of
        None \<Rightarrow> Threw TypeError d
      | Some p \<Rightarrow> Done (d\<lparr> properties :=
          AList.map_entry name (\<lambda>p. p\<lparr> prop_minimum := lo, prop_maximum := hi \<rparr>) (properties d) \<rparr>))"

definition set_act_title :: "string \<Rightarrow> string \<Rightarrow> dingz \<Rightarrow> outcome" where
  "set_act_title name t d =
     (case map_of (actions d) name of
        None \<Rightarrow> Threw TypeError d
      | Some a \<Rightarrow> Done (d\<lparr> actions := AList.map_entry name (\<lambda>a. a\<lparr> act_title := t \<rparr>) (actions d) \<rparr>))"

definition set_act_visible :: "string \<Rightarrow> jsval \<Rightarrow> dingz \<Rightarrow> outcome" where
  "set_act_visible name v d =
     (case map_of (actions d) name of
        None \<Rightarrow> Threw TypeError d
      | Some a \<Rightarrow> Done (d\<lparr> actions := AList.map_entry name (\<lambda>a. a\<lparr> act_visible := v \<rparr>) (actions d) \<rparr>))"

definition setShadeConfig :: "int \<Rightarrow> blind_config list \<Rightarrow> dingz \<Rightarrow> outcome" where
  "setShadeConfig index blinds_cfg d =
     (case nth_opt blinds_cfg (index - 1) of
        None \<Rightarrow> Threw TypeError d
      | Some shadeConfig \<Rightarrow>
          (let shadeID = ''shade'' @ show_int_radix 10 index; name = blind_name shadeConfig in
           run_steps
             ([ set_prop_visible (shadeID @ ''Lamella'') (Bool (blind_type shadeConfig = ''blind'')),
                set_prop_bounds shadeID (blind_min_value shadeConfig) (blind_max_value shadeConfig) ]
              @ (if name \<noteq> [] then
                   [ set_prop_title shadeID name,
                     set_prop_title (shadeID @ ''Lamella'') (name @ '' Lamella''),
                     set_prop_title (shadeID @ ''Power'') (name @ '' Power''),
                     set_act_title (shadeID @ ''up'') (name @ '' up''),
                     set_act_title (shadeID @ ''down'') (name @ '' down''),
                     set_act_title (shadeID @ ''stop'') (''Stop '' @ name) ]
                 else [])) d))"

definition setDimmerConfig :: "int \<Rightarrow> dimmer_config list \<Rightarrow> dingz \<Rightarrow> outcome" where
  "setDimmerConfig index dimmers_cfg d =
     (if Some (index - 1) \<noteq> thermostatOutput d then
        (case nth_opt dimmers_cfg (index - 1) of
           None \<Rightarrow> Threw TypeError d
         | Some config \<Rightarrow>
             (let visible = (if truthy (dimmer_active config)
                             then Bool (dimmer_type config = ''light'') else dimmer_active config);
                  dimmerID = ''dimmer'' @ show_int_radix 10 index;
                  name = dimmer_name config
              in run_steps
                   ([ set_prop_visible dimmerID visible,
                      set_prop_visible (dimmerID @ ''Brightness'') visible,
                      set_prop_visible (dimmerID @ ''Power'') visible,
                      set_act_visible (dimmerID @ ''toggle'') visible ]
                    @ (if name \<noteq> [] then
                         [ set_prop_title dimmerID name,
                           set_prop_title (dimmerID @ ''Brightness'') (name @ '' Brightness''),
                           set_prop_title (dimmerID @ ''Power'') (name @ '' Power''),
                           set_act_title (dimmerID @ ''toggle'') (''Toggle '' @ name) ]
                       else [])
                    @ (if \<not> truthy visible then
                         [ \<lambda>x. Done (x\<lparr> actions := AList.delete (dimmerID @ ''toggle'') (actions x) \<rparr>) ]
                       else [])) d))
      else Done d)"

text \<open>The second \<open>then\<close> of the constructor: a configuration that was not fetched, or
  whose call resolved with no value, is \<open>None\<close>.\<close>

definition apply_detail_configs :: "blind_config list option \<Rightarrow> dimmer_config list option \<Rightarrow> dingz \<Rightarrow> outcome" where
  "apply_detail_configs blindConfig dimmerConfig d =
     run_steps
       ((case blindConfig of
           None \<Rightarrow> []
         | Some bc \<Rightarrow> (if shade1 d then [setShadeConfig 1 bc] else [])
                      @ (if shade2 d then [setShadeConfig 2 bc] else []))
        @ (case dimmerConfig of
             None \<Rightarrow> []
           | Some dc \<Rightarrow> (if dimmerGroup1 d then [setDimmerConfig 1 dc, setDimmerConfig 2 dc] else [])
                        @ (if dimmerGroup2 d then [setDimmerConfig 3 dc, setDimmerConfig 4 dc] else []))) d"

subsection \<open>Webhook events (\<open>handleGenericEvent\<close> of \<open>index.js\<close>)\<close>

text \<open>\<open>index\<close> and \<open>action\<close> are the form fields of the callback, as text.\<close>

definition handleGenericEvent :: "string \<Rightarrow> string \<Rightarrow> dingz \<Rightarrow> outcome" where
  "handleGenericEvent index action d =
     (let indexNumber = parseInt index in
      if (case indexNumber of None \<Rightarrow> False | Some n \<Rightarrow> n \<le> 4) then
        (let keyID = ''key'' @ index in
         if action = ''1'' then eventNotify (keyID @ ''single'') d
         else if action = ''2'' then eventNotify (keyID @ ''double'') d
         else if action = ''3'' then eventNotify (keyID @ ''long'') d
         else if action = ''20'' then eventNotify (keyID @ ''tripple'') d
         else if action = ''21'' then eventNotify (keyID @ ''quadruple'') d
         else if action = ''8'' \<or> action = ''begin'' then set_value keyID (Inr (Bool True)) d
         else if action = ''9'' \<or> action = ''end'' then set_value keyID (Inr (Bool False)) d
         else Done d)
      else if indexNumber = Some 5 then
        (if action = ''8'' then set_value ''motion'' (Inr (Bool True)) d
         else if action = ''9'' then set_value ''motion'' (Inr (Bool False)) d
         else Done d)
      else Done d)"

subsection \<open>Discovery\<close>

text \<open>\<open>address && !address.includes(':')\<close>: \<open>includes\<close> exists on strings and arrays
  only.\<close>

definition updateFromDiscovery :: "jsval \<Rightarrow> dingz \<Rightarrow> outcome" where
  "updateFromDiscovery a d =
     (let d1 = connectedNotify True d in
      if \<not> truthy a then Done d1
      else (case a of
              Str s \<Rightarrow> (if CHR '':'' \<in> set s then Done d1 else Done (d1\<lparr> address := a \<rparr>))
            | Arr xs \<Rightarrow> (if Str '':'' \<in> set xs then Done d1 else Done (d1\<lparr> address := a \<rparr>))
            | _ \<Rightarrow> Threw TypeError d1))"

subsection \<open>Push messages (\<open>mqttEvent\<close>)\<close>

definition bind_arg :: "js_error + 'a \<Rightarrow> ('a \<Rightarrow> js_error + 'b) \<Rightarrow> js_error + 'b" where
  "bind_arg x f = (case x of Inl e \<Rightarrow> Inl e | Inr v \<Rightarrow> f v)"

text \<open>\<open>v.toString(16)\<close>: only a number heeds the radix.\<close>

definition toString16 :: "jsval \<Rightarrow> js_error + string" where
  "toString16 v =
     (case v of
        Undefined \<Rightarrow> Inl TypeError
      | Null \<Rightarrow> Inl TypeError
      | Num n \<Rightarrow> Inr (show_int_radix 16 n)
      | _ \<Rightarrow> Inr (to_string v))"

definition led_color :: "jsval \<Rightarrow> js_error + jsval" where
  "led_color message =
     bind_arg (bind_arg (get_member message ''r'') toString16) (\<lambda>r.
     bind_arg (bind_arg (get_member message ''g'') toString16) (\<lambda>g.
     bind_arg (bind_arg (get_member message ''b'') toString16) (\<lambda>b.
       Inr (Str (''#'' @ padStart 2 CHR ''0'' r @ padStart 2 CHR ''0'' g @ padStart 2 CHR ''0'' b)))))"

text \<open>The number after \<open>parseInt(details[1], 10) + 1\<close>, as text; a missing segment
  reads as \<open>NaN\<close>.\<close>

definition index_plus_one :: "string option \<Rightarrow> string" where
  "index_plus_one seg =
     show_num (map_option (\<lambda>i. i + 1) (case seg of None \<Rightarrow> None | Some t \<Rightarrow> parseInt10 t))"

text \<open>The \<open>switch(message)\<close> of a button event, with its cases in the order of the
  source; the second \<open>case "m2"\<close> is kept where the source has it.\<close>

definition button_event :: "string \<Rightarrow> jsval \<Rightarrow> dingz \<Rightarrow> outcome" where
  "button_event keyID message d =
     (if message = Str ''p'' then set_value keyID (Inr (Bool True)) d
      else if message = Str ''m1'' then
        run_steps [eventNotify (keyID @ ''single''), set_value keyID (Inr (Bool False))] d
      else if message = Str ''m2'' then
        run_steps [eventNotify (keyID @ ''double''), set_value keyID (Inr (Bool False))] d
      else if message = Str ''m3'' then
        run_steps [eventNotify (keyID @ ''tripple''), set_value keyID (Inr (Bool False))] d
      else if message = Str ''m2'' then
        run_steps [eventNotify (keyID @ ''quadruple''), set_value keyID (Inr (Bool False))] d
      else if message = Str ''h'' then Done d
      else if message = Str ''r'' then
        run_steps [eventNotify (keyID @ ''long''), set_value keyID (Inr (Bool False))] d
      else (case message of
              Str m \<Rightarrow> (if startsWith m ''m'' then set_value keyID (Inr (Bool False)) d else Done d)
            | _ \<Rightarrow> Threw TypeError d))"

definition mqttEvent :: "string \<Rightarrow> jsval \<Rightarrow> dingz \<Rightarrow> outcome" where
  "mqttEvent path message d =
     (let parts = split_on CHR ''/'' path;
          device_type = hd parts;
          event = nth_opt parts 1;
          details0 = nth_opt parts 2;
          details1 = nth_opt parts 3
      in
      if device_type = ''online'' then Done (connectedNotify (truthy message) d)
      else if device_type = ''announce'' then
        (case get_member message ''ip'' of
           Inl e \<Rightarrow> Threw e d
         | Inr ip \<Rightarrow>
             (case get_member message ''model'' of
                Inl e \<Rightarrow> Threw e (d\<lparr> address := ip \<rparr>)
              | Inr model \<Rightarrow> Done (d\<lparr> address := ip, deviceType := model \<rparr>)))
      else if device_type = ''last_alive'' then Done d
      else
        (let d1 = d\<lparr> deviceType := Str device_type \<rparr> in
         if event = Some ''sensor'' then
           (if details0 = Some ''temperature'' then set_value_opt ''temperature'' (Inr message) d1
            else if details0 = Some ''light'' then set_value_opt ''lightLevel'' (Inr message) d1
            else Done d1)
         else if event = Some ''power'' then
           (if details0 = Some ''motor'' then
              set_value_opt (''shade'' @ index_plus_one details1 @ ''Power'') (Inr message) d1
            else if details0 = Some ''light'' then
              set_value_opt (''dimmer'' @ index_plus_one details1 @ ''Power'') (Inr message) d1
            else Done d1)
         else if event = Some ''energy'' then Done d1
         else if event = Some ''state'' then
           (if details0 = Some ''light'' then
              (let index = index_plus_one details1 in
               run_steps
                 [ set_value_opt (''dimmer'' @ index)
                     (bind_arg (get_member message ''turn'') (\<lambda>t. Inr (Bool (t = Str ''off'')))),
                   set_value_opt (''dimmer'' @ index @ ''Brightness'') (get_member message ''brightness'') ] d1)
            else if details0 = Some ''thermostat'' then
              run_steps
                [ set_value_opt ''thermostatMode'' (get_member message ''status''),
                  set_value_opt ''thermostatState''
                    (bind_arg (get_member message ''status'') (\<lambda>st.
                       if st = Str ''on'' then get_member message ''mode'' else Inr (Str ''off''))),
                  set_value_opt ''targetTemperature'' (get_member message ''target'') ] d1
            else if details0 = Some ''motor'' then
              (let index = index_plus_one details1 in
               run_steps
                 [ set_value_opt (''shade'' @ index) (get_member message ''position''),
                   set_value_opt (''shade'' @ index @ ''Lamella'') (get_member message ''lamella'') ] d1)
            else if details0 = Some ''led'' then
              run_steps
                [ set_value_opt ''led'' (bind_arg (get_member message ''on'') (\<lambda>v. Inr (Bool (v = Num 1)))),
                  set_value_opt ''ledColor'' (led_color message) ] d1
            else Done d1)
         else if event = Some ''event'' then
           (if details0 = Some ''button'' then
              (let keyID = ''key'' @ index_plus_one details1 in
               if keyID = ''key5'' then Done d1 else button_event keyID message d1)
            else if details0 = Some ''pir'' then
              (if details1 = Some ''0'' then set_value_opt ''motion'' (Inr message) d1 else Done d1)
            else Done d1)
         else Done d1))"

subsection \<open>The message handler of the bus client (\<open>DingzMQTT.connect\<close>)\<close>

definition target_malformed :: string where
  "target_malformed = CHR 0x22 # ''target:'' @ [CHR 0x22]"

definition target_repaired :: string where
  "target_repaired = CHR 0x22 # ''target'' @ [CHR 0x22, CHR '':'']"

text \<open>The fallback of the \<open>catch\<close> block for text that is no JSON: \<open>None\<close> is the
  decode failure that is logged and dropped.\<close>

definition decode_legacy :: "string \<Rightarrow> jsval option" where
  "decode_legacy messageString =
     (if messageString \<in> set [''s'', ''ss'', ''n''] then Some (Bool (messageString \<noteq> ''n''))
      else if messageString \<in> set [''p'', ''h'', ''r''] \<or> startsWith messageString ''m''
        then Some (Str messageString)
      else None)"

text \<open>The text handed to \<open>JSON.parse\<close>: on a thermostat state topic the first
  \<open>"target:"\<close> is replaced by \<open>"target":\<close>.\<close>

definition repair_message :: "string \<Rightarrow> string \<Rightarrow> string" where
  "repair_message topic messageString =
     (if endsWith topic ''state/thermostat''
      then replace_first target_malformed target_repaired messageString
      else messageString)"

text \<open>\<open>JSON.parse\<close> is the platform's: a parameter, \<open>None\<close> where it throws.\<close>

definition decode_message :: "(string \<Rightarrow> jsval option) \<Rightarrow> string \<Rightarrow> string \<Rightarrow> jsval option" where
  "decode_message JSON_parse topic messageString =
     (let repaired = repair_message topic messageString in
      case JSON_parse repaired of
        Some parsedMessage \<Rightarrow> Some parsedMessage
      | None \<Rightarrow> decode_legacy repaired)"

definition to_lower :: "char \<Rightarrow> char" where
  "to_lower c = (let k = of_char c :: nat in if 65 \<le> k \<and> k \<le> 90 then char_of (k + 32) else c)"

definition to_upper :: "char \<Rightarrow> char" where
  "to_upper c = (let k = of_char c :: nat in if 97 \<le> k \<and> k \<le> 122 then char_of (k - 32) else c)"

datatype discovery_result = Updated outcome | Created dingz

text \<open>\<open>handleDiscovery\<close>: a known device is revived, an unknown one is constructed (and
  joins the adapter's devices only when its construction has finished).\<close>

definition handleDiscovery :: "string \<Rightarrow> jsval \<Rightarrow> (string \<rightharpoonup> dingz) \<Rightarrow> discovery_result" where
  "handleDiscovery m a devs =
     (case devs (''dingz-'' @ map to_lower m) of
        Some d \<Rightarrow> Updated (updateFromDiscovery a d)
      | None \<Rightarrow> Created (new_dingz (map to_upper m) a))"

datatype message_result =
    Ignored
  | Dropped
  | Failed js_error
  | NoDevice
  | Discovered discovery_result
  | Delivered string outcome

definition on_message :: "(string \<Rightarrow> jsval option) \<Rightarrow> (string \<rightharpoonup> dingz) \<Rightarrow> string \<Rightarrow> string \<Rightarrow> message_result" where
  "on_message JSON_parse devs topic message =
     (let parts = split_on CHR ''/'' topic;
          dingzTopic = hd parts;
          dingzId = nth_opt parts 1;
          localPath = drop 2 parts;
          deviceId = ''dingz-'' @ (case dingzId of None \<Rightarrow> ''undefined'' | Some i \<Rightarrow> i)
      in
      if dingzTopic \<noteq> ''dingz'' then Ignored
      else
        (case decode_message JSON_parse topic message of
           None \<Rightarrow> Dropped
         | Some parsedMessage \<Rightarrow>
             (case devs deviceId of
                None \<Rightarrow>
                  (if nth_opt localPath 0 = Some ''announce'' then
                     (case dingzId of
                        None \<Rightarrow> Failed TypeError
                      | Some i \<Rightarrow>
                          (case get_member parsedMessage ''ip'' of
                             Inl e \<Rightarrow> Failed e
                           | Inr ip \<Rightarrow> Discovered (handleDiscovery (map to_upper i) ip devs)))
                   else NoDevice)
              | Some device \<Rightarrow>
                  Delivered deviceId (mqttEvent (join_with CHR ''/'' localPath) parsedMessage device))))"

subsection \<open>The full-state poll\<close>

record dimmer_entry =
  dimmer_absolute :: int
  dimmer_on :: jsval
  dimmer_value :: jsval

record blind_entry =
  blind_absolute :: int
  blind_position :: jsval
  blind_lamella :: jsval

text \<open>
  The \<open>state\<close> snapshot with the fields the poll reads. \<open>sensors_room_temperature\<close> is
  \<open>None\<close> when the snapshot has no such key, \<open>sensors_power_outputs\<close> holds the \<open>value\<close>
  of each output, and \<open>thermostat_out\<close> is the output index that \<open>index.js\<close> reads.
\<close>

record snapshot =
  sensors_brightness :: jsval
  sensors_room_temperature :: "jsval option"
  sensors_power_outputs :: "jsval list"
  led_on :: jsval
  led_mode :: jsval
  led_hsv :: string
  led_rgb :: jsval
  dimmers :: "dimmer_entry list"
  blinds :: "blind_entry list"
  thermostat_active :: jsval
  thermostat_target_temp :: jsval
  thermostat_min_target_temp :: jsval
  thermostat_max_target_temp :: jsval
  thermostat_enabled :: jsval
  thermostat_mode :: jsval
  thermostat_on :: jsval
  thermostat_out :: "int option"

text \<open>\<open>state.sensors.power_outputs[i].value\<close>: a TypeError when there is no such output.\<close>

definition power_output :: "snapshot \<Rightarrow> int option \<Rightarrow> js_error + jsval" where
  "power_output state i =
     (case i of
        None \<Rightarrow> Inl TypeError
      | Some k \<Rightarrow> (case nth_opt (sensors_power_outputs state) k of
                     None \<Rightarrow> Inl TypeError
                   | Some v \<Rightarrow> Inr v))"

text \<open>\<open>THERMOSTAT_STATE_TO_MODE[mode]\<close>\<close>

definition THERMOSTAT_STATE_TO_MODE :: "jsval \<Rightarrow> jsval" where
  "THERMOSTAT_STATE_TO_MODE m =
     (if to_string m = ''heating'' then Str ''heat''
      else if to_string m = ''cooling'' then Str ''cool''
      else Undefined)"

text \<open>The body of the loop over \<open>state.dimmers\<close>.\<close>

definition poll_dimmer :: "snapshot \<Rightarrow> dimmer_entry \<Rightarrow> dingz \<Rightarrow> outcome" where
  "poll_dimmer state dimmer d =
     (if (dimmer_absolute dimmer > 1 \<and> dimmerGroup2 d) \<or> (dimmer_absolute dimmer \<le> 1 \<and> dimmerGroup1 d) then
        (let dimmerID = ''dimmer'' @ show_int_radix 10 (dimmer_absolute dimmer + 1) in
         run_steps
           [ set_value dimmerID (Inr (dimmer_on dimmer)),
             set_value (dimmerID @ ''Brightness'') (Inr (dimmer_value dimmer)),
             set_value (dimmerID @ ''Power'') (power_output state (Some (dimmer_absolute dimmer))) ] d)
      else Done d)"

text \<open>The body of the loop over \<open>state.blinds\<close>.\<close>

definition poll_blind :: "snapshot \<Rightarrow> blind_entry \<Rightarrow> dingz \<Rightarrow> outcome" where
  "poll_blind state blind d =
     (if (blind_absolute blind = 0 \<and> shade1 d) \<or> (blind_absolute blind = 1 \<and> shade2 d) then
        (let shadeID = ''shade'' @ show_int_radix 10 (blind_absolute blind + 1);
             baseIndex = blind_absolute blind * 2
         in run_steps
           [ set_value shadeID (Inr (blind_position blind)),
             set_value (shadeID @ ''Lamella'') (Inr (blind_lamella blind)),
             (\<lambda>x. case power_output state (Some baseIndex) of
                    Inl e \<Rightarrow> Threw e x
                  | Inr motor1Power \<Rightarrow>
                      (case power_output state (Some (baseIndex + 1)) of
                         Inl e \<Rightarrow> Threw e x
                       | Inr motor2Power \<Rightarrow>
                           set_value (shadeID @ ''Power'') (Inr (js_or motor1Power motor2Power)) x)) ] d)
      else Done d)"

text \<open>The thermostat block of the poll. \<open>out\<close> is the index of the thermostat's output:
  the device's \<open>thermostatOutput\<close> in the bus version, \<open>state.thermostat.out\<close> in
  \<open>index.js\<close>.\<close>

definition poll_thermostat :: "int option \<Rightarrow> snapshot \<Rightarrow> dingz \<Rightarrow> outcome" where
  "poll_thermostat out state d =
     (if truthy (thermostat_active state) \<and> thermostat d then
        run_steps
          [ set_value ''targetTemperature'' (Inr (thermostat_target_temp state)),
            set_prop_bounds ''targetTemperature''
              (thermostat_min_target_temp state) (thermostat_max_target_temp state),
            set_value ''thermostatMode''
              (Inr (if truthy (thermostat_enabled state)
                    then THERMOSTAT_STATE_TO_MODE (thermostat_mode state) else Str ''off'')),
            set_value ''thermostatState''
              (Inr (if truthy (thermostat_on state) then thermostat_mode state else Str ''off'')),
            set_value (''dimmer'' @ show_num (map_option (\<lambda>i. i + 1) out) @ ''Power'')
              (power_output state out) ] d
      else Done d)"

text \<open>
  Everything the poll does with a snapshot. \<open>hsv2rgb\<close> computes with floating point and
  is a parameter.
\<close>

definition reconcile :: "(string \<Rightarrow> string) \<Rightarrow> int option \<Rightarrow> snapshot \<Rightarrow> dingz \<Rightarrow> outcome" where
  "reconcile hsv2rgb out state d =
     run_steps
       [ (\<lambda>x. if sensors_brightness state \<noteq> Null
               then set_value ''lightLevel'' (Inr (sensors_brightness state)) x else Done x),
         (\<lambda>x. case sensors_room_temperature state of
                 Some t \<Rightarrow> set_value ''temperature'' (Inr t) x
               | None \<Rightarrow> Done x),
         set_value ''led'' (Inr (led_on state)),
         set_value ''ledColor''
           (Inr (Str (''#'' @ (if led_mode state = Str ''hsv'' then hsv2rgb (led_hsv state)
                               else to_string (led_rgb state))))),
         for_each (poll_dimmer state) (dimmers state),
         for_each (poll_blind state) (blinds state),
         poll_thermostat out state ] d"

text \<open>\<open>poll\<close> of the bus version: nothing for a disconnected device, nothing when the
  call resolves with no value.\<close>

definition poll :: "snapshot fetch \<Rightarrow> (string \<Rightarrow> string) \<Rightarrow> dingz \<Rightarrow> outcome" where
  "poll fetch hsv2rgb d =
     (if \<not> connected d then Done d
      else (case apiCall fetch ''state'' ''GET'' d of
              (d1, Inl e) \<Rightarrow> Threw e d1
            | (d1, Inr None) \<Rightarrow> Done d1
            | (d1, Inr (Some state)) \<Rightarrow> reconcile hsv2rgb (thermostatOutput d1) state d1))"

text \<open>\<open>poll\<close> of \<open>index.js\<close>: reading \<open>state.sensors\<close> of no value is a TypeError.\<close>

definition poll_index_js :: "snapshot fetch \<Rightarrow> (string \<Rightarrow> string) \<Rightarrow> dingz \<Rightarrow> outcome" where
  "poll_index_js fetch hsv2rgb d =
     (if \<not> connected d then Done d
      else (case apiCall fetch ''state'' ''GET'' d of
              (d1, Inl e) \<Rightarrow> Threw e d1
            | (d1, Inr None) \<Rightarrow> Threw TypeError d1
            | (d1, Inr (Some state)) \<Rightarrow> reconcile hsv2rgb (thermostat_out state) state d1))"

subsection \<open>Serialization\<close>

record device_dict =
  dict_properties :: "(string \<times> property) list"
  dict_actions :: "(string \<times> action) list"

text \<open>
  \<open>super.asDict()\<close> is the container's: one entry per property, which
  \<open>BasicDingzProperty.asDict\<close> extends with \<open>visible\<close>, and one per action.
\<close>

definition super_asDict :: "dingz \<Rightarrow> device_dict" where
  "super_asDict d = \<lparr> dict_properties = properties d, dict_actions = actions d \<rparr>"

text \<open>The loop over \<open>Object.entries(...)\<close>, a snapshot of the entries, deleting from the
  dictionary each key whose entry has \<open>visible === false\<close>.\<close>

fun delete_invisible :: "('a \<Rightarrow> jsval) \<Rightarrow> (string \<times> 'a) list \<Rightarrow> (string \<times> 'a) list \<Rightarrow> (string \<times> 'a) list" where
  "delete_invisible vis [] dict = dict"
| "delete_invisible vis ((key, x) # entries) dict =
     delete_invisible vis entries (if vis x = Bool False then AList.delete key dict else dict)"

definition asDict :: "dingz \<Rightarrow> device_dict" where
  "asDict d =
     (let dict = super_asDict d in
      \<lparr> dict_properties = delete_invisible prop_visible (dict_properties dict) (dict_properties dict),
        dict_actions = delete_invisible act_visible (dict_actions dict) (dict_actions dict) \<rparr>)"

subsection \<open>Auxiliary notions for the statements\<close>

text \<open>The index of the first occurrence of a pattern in a text.\<close>

fun first_occurrence :: "string \<Rightarrow> string \<Rightarrow> nat option" where
  "first_occurrence pat [] = (if pat = [] then Some 0 else None)"
| "first_occurrence pat (c # cs) =
     (if startsWith (c # cs) pat then Some 0 else map_option Suc (first_occurrence pat cs))"

text \<open>The value a property holds, if the device has the property.\<close>

definition value_of :: "string \<Rightarrow> dingz \<Rightarrow> jsval option" where
  "value_of name d = map_option prop_value (findProperty name d)"

text \<open>\<open>d'\<close> differs from \<open>d\<close> in its properties only, and not in those named in \<open>N\<close>.\<close>

definition keeps :: "string set \<Rightarrow> dingz \<Rightarrow> dingz \<Rightarrow> bool" where
  "keeps N d d' = (d'\<lparr> properties := properties d \<rparr> = d \<and> (\<forall>n\<in>N. findProperty n d' = findProperty n d))"

text \<open>The snapshot a poll of the device obtains, if it obtains one: the device is connected
  and the \<open>state\<close> call resolves with a body.\<close>

definition polled_snapshot :: "snapshot fetch \<Rightarrow> dingz \<Rightarrow> snapshot option" where
  "polled_snapshot fetch d =
     (if connected d
      then (case snd (apiCall fetch ''state'' ''GET'' d) of
              Inr (Some state) \<Rightarrow> Some state
            | _ \<Rightarrow> None)
      else None)"

text \<open>One poll cycle after another, on the device each leaves behind.\<close>

definition poll_cycle :: "snapshot fetch \<Rightarrow> (string \<Rightarrow> string) \<Rightarrow> dingz \<Rightarrow> dingz" where
  "poll_cycle fetch hsv2rgb d = state_of (poll fetch hsv2rgb d)"

subsection \<open>A sample device\<close>

text \<open>
  A unit with \<open>dip_config\<close> 1 (dimmer group A and shutter channel 2), a motion sensor
  and a thermostat whose valve is on output 2, after the schema has been built.
\<close>

definition sample_info :: "string \<rightharpoonup> device_info" where
  "sample_info = [''AABBCC'' \<mapsto> \<lparr> dip_config = 1, has_pir = True \<rparr>]"

definition sample_device :: dingz where
  "sample_device =
     build_schema
       ((case resolve_capabilities sample_info (new_dingz ''AABBCC'' (Str ''10.0.0.2'')) of
           Inr d \<Rightarrow> d | Inl e \<Rightarrow> new_dingz ''AABBCC'' (Str ''10.0.0.2''))
        \<lparr> thermostat := True, thermostatOutput := Some 2 \<rparr>)"

text \<open>A unit with one shutter whose configuration names a type without slats.\<close>

definition shade_device :: dingz where
  "shade_device = state_of (setShadeConfig 1
      [\<lparr> blind_type = ''awning'', blind_min_value = Num 0, blind_max_value = Num 100, blind_name = [] \<rparr>]
      (addShade 1 (new_dingz ''AABBCC'' (Str ''10.0.0.2''))))"

text \<open>A snapshot of that unit, and a device that answers every request with it.\<close>

definition sample_state :: snapshot where
  "sample_state =
     \<lparr> sensors_brightness = Num 120, sensors_room_temperature = Some (Num 21),
       sensors_power_outputs = [Num 5, Num 0, Num 7, Num 0],
       led_on = Bool True, led_mode = Str ''rgb'', led_hsv = ''0;0;100'', led_rgb = Str ''FFFFFF'',
       dimmers = [\<lparr> dimmer_absolute = 0, dimmer_on = Bool True, dimmer_value = Num 80 \<rparr>,
                  \<lparr> dimmer_absolute = 2, dimmer_on = Bool True, dimmer_value = Num 50 \<rparr>],
       blinds = [\<lparr> blind_absolute = 1, blind_position = Num 30, blind_lamella = Num 0 \<rparr>],
       thermostat_active = Bool True, thermostat_target_temp = Num 21,
       thermostat_min_target_temp = Num 5, thermostat_max_target_temp = Num 30,
       thermostat_enabled = Bool True, thermostat_mode = Str ''heating'', thermostat_on = Bool True,
       thermostat_out = Some 2 \<rparr>"

definition sample_fetch :: "snapshot fetch" where
  "sample_fetch method url =
     Inr \<lparr> resp_ok = True, resp_status = 200, resp_text = Inr [], resp_json = Inr sample_state \<rparr>"

text \<open>A device that answers with the same snapshot, its thermostat not active.\<close>

definition idle_fetch :: "snapshot fetch" where
  "idle_fetch method url =
     Inr \<lparr> resp_ok = True, resp_status = 200, resp_text = Inr [],
           resp_json = Inr (sample_state\<lparr> thermostat_active := Bool False \<rparr>) \<rparr>"

text \<open>The names of the properties of dimmers 3 and 4.\<close>

definition high_dimmer_names :: "string set" where
  "high_dimmer_names = {''dimmer3'', ''dimmer3Brightness'', ''dimmer3Power'',
                        ''dimmer4'', ''dimmer4Brightness'', ''dimmer4Power''}"

text \<open>A thermostat state payload with the misplaced colon, \<open>{"target:"21}\<close>, and a
  stand-in for \<open>JSON.parse\<close> that accepts exactly the repaired text \<open>{"target":21}\<close>.\<close>

definition sample_payload :: string where
  "sample_payload = ''{'' @ target_malformed @ ''21}''"

definition sample_parse :: "string \<Rightarrow> jsval option" where
  "sample_parse text =
     (if text = ''{'' @ target_repaired @ ''21}'' then Some (Obj [(''target'', Num 21)]) else None)"

section \<open>Capability truth tables\<close>

text \<open>
  C2. For every \<open>dip_config\<close> value in 0..3 the device query succeeds and sets:
  shutter channel 1 present iff the value is 0 or 2, shutter channel 2 iff it is at
  most 1, dimmer group A iff it is 1 or 3, dimmer group B iff it is at least 2; that
  is the table 0: (T,T,F,F), 1: (F,T,T,F), 2: (T,F,F,T), 3: (F,F,T,T).
\<close>

theorem dip_config_truth_table:
  assumes "info (mac d) = Some di" and "0 \<le> dip_config di" and "dip_config di \<le> 3"
  shows "\<exists>d'. resolve_capabilities info d = Inr d'
      \<and> shade1 d' = (dip_config di = 0 \<or> dip_config di = 2)
      \<and> shade2 d' = (dip_config di \<le> 1)
      \<and> dimmerGroup1 d' = (dip_config di = 1 \<or> dip_config di = 3)
      \<and> dimmerGroup2 d' = (dip_config di \<ge> 2)
      \<and> (shade1 d', shade2 d', dimmerGroup1 d', dimmerGroup2 d') =
          (if dip_config di = 0 then (True, True, False, False)
           else if dip_config di = 1 then (False, True, True, False)
           else if dip_config di = 2 then (True, False, False, True)
           else (False, False, True, True))"
  using assms by (auto simp: resolve_capabilities_def Let_def)

theorem dip_config_truth_table_witness:
  "(\<exists>d'. resolve_capabilities [''AABB'' \<mapsto> \<lparr>dip_config = 2, has_pir = True\<rparr>]
            (new_dingz ''AABB'' (Str ''10.0.0.2'')) = Inr d'
      \<and> shade1 d' \<and> \<not> shade2 d' \<and> \<not> dimmerGroup1 d' \<and> dimmerGroup2 d')"
  using dip_config_truth_table
    [of "[''AABB'' \<mapsto> \<lparr>dip_config = 2, has_pir = True\<rparr>]"
        "new_dingz ''AABB'' (Str ''10.0.0.2'')" "\<lparr>dip_config = 2, has_pir = True\<rparr>"]
  by (auto simp: new_dingz_def)

text \<open>
  C10. For every \<open>dip_config\<close> value in 0..3 exactly one of shutter channel 1 and
  dimmer group A is present, and exactly one of shutter channel 2 and dimmer group B.
\<close>

theorem dip_config_pairing:
  assumes "info (mac d) = Some di" and "0 \<le> dip_config di" and "dip_config di \<le> 3"
    and "resolve_capabilities info d = Inr d'"
  shows "shade1 d' \<noteq> dimmerGroup1 d' \<and> shade2 d' \<noteq> dimmerGroup2 d'"
  using assms by (auto simp: resolve_capabilities_def Let_def)

theorem dip_config_pairing_witness:
  "shade1 (projr (resolve_capabilities [''AABB'' \<mapsto> \<lparr>dip_config = 1, has_pir = False\<rparr>]
            (new_dingz ''AABB'' (Str ''10.0.0.2''))))
     \<noteq> dimmerGroup1 (projr (resolve_capabilities [''AABB'' \<mapsto> \<lparr>dip_config = 1, has_pir = False\<rparr>]
            (new_dingz ''AABB'' (Str ''10.0.0.2''))))
   \<and> shade2 (projr (resolve_capabilities [''AABB'' \<mapsto> \<lparr>dip_config = 1, has_pir = False\<rparr>]
            (new_dingz ''AABB'' (Str ''10.0.0.2''))))
     \<noteq> dimmerGroup2 (projr (resolve_capabilities [''AABB'' \<mapsto> \<lparr>dip_config = 1, has_pir = False\<rparr>]
            (new_dingz ''AABB'' (Str ''10.0.0.2''))))"
  using dip_config_pairing
    [of "[''AABB'' \<mapsto> \<lparr>dip_config = 1, has_pir = False\<rparr>]"
        "new_dingz ''AABB'' (Str ''10.0.0.2'')" "\<lparr>dip_config = 1, has_pir = False\<rparr>"
        "projr (resolve_capabilities [''AABB'' \<mapsto> \<lparr>dip_config = 1, has_pir = False\<rparr>]
            (new_dingz ''AABB'' (Str ''10.0.0.2'')))"]
  by (simp add: new_dingz_def resolve_capabilities_def)

section \<open>Facts about the sample device\<close>

lemma addProperty_fields:
  "properties (addProperty n p d) = AList.update n p (properties d)"
  "actions (addProperty n p d) = actions d" "events (addProperty n p d) = events d"
  "types (addProperty n p d) = types d" "fired (addProperty n p d) = fired d"
  "requests (addProperty n p d) = requests d" "address (addProperty n p d) = address d"
  "mac (addProperty n p d) = mac d" "connected (addProperty n p d) = connected d"
  "deviceType (addProperty n p d) = deviceType d" "shade1 (addProperty n p d) = shade1 d"
  "shade2 (addProperty n p d) = shade2 d" "dimmerGroup1 (addProperty n p d) = dimmerGroup1 d"
  "dimmerGroup2 (addProperty n p d) = dimmerGroup2 d" "motionSensor (addProperty n p d) = motionSensor d"
  "thermostat (addProperty n p d) = thermostat d" "thermostatOutput (addProperty n p d) = thermostatOutput d"
  by (simp_all add: addProperty_def)

lemma addAction_fields:
  "properties (addAction n t d) = properties d"
  "actions (addAction n t d) = AList.update n \<lparr> act_title = t, act_visible = Undefined \<rparr> (actions d)"
  "events (addAction n t d) = events d"
  "types (addAction n t d) = types d" "fired (addAction n t d) = fired d"
  "requests (addAction n t d) = requests d" "address (addAction n t d) = address d"
  "mac (addAction n t d) = mac d" "connected (addAction n t d) = connected d"
  "deviceType (addAction n t d) = deviceType d" "shade1 (addAction n t d) = shade1 d"
  "shade2 (addAction n t d) = shade2 d" "dimmerGroup1 (addAction n t d) = dimmerGroup1 d"
  "dimmerGroup2 (addAction n t d) = dimmerGroup2 d" "motionSensor (addAction n t d) = motionSensor d"
  "thermostat (addAction n t d) = thermostat d" "thermostatOutput (addAction n t d) = thermostatOutput d"
  by (simp_all add: addAction_def)

lemma addEvent_fields:
  "properties (addEvent n t d) = properties d"
  "actions (addEvent n t d) = actions d"
  "events (addEvent n t d) = AList.update n t (events d)"
  "types (addEvent n t d) = types d" "fired (addEvent n t d) = fired d"
  "requests (addEvent n t d) = requests d" "address (addEvent n t d) = address d"
  "mac (addEvent n t d) = mac d" "connected (addEvent n t d) = connected d"
  "deviceType (addEvent n t d) = deviceType d" "shade1 (addEvent n t d) = shade1 d"
  "shade2 (addEvent n t d) = shade2 d" "dimmerGroup1 (addEvent n t d) = dimmerGroup1 d"
  "dimmerGroup2 (addEvent n t d) = dimmerGroup2 d" "motionSensor (addEvent n t d) = motionSensor d"
  "thermostat (addEvent n t d) = thermostat d" "thermostatOutput (addEvent n t d) = thermostatOutput d"
  by (simp_all add: addEvent_def)

lemma push_type_fields:
  "properties (push_type t d) = properties d"
  "actions (push_type t d) = actions d"
  "events (push_type t d) = events d"
  "types (push_type t d) = types d @ [t]" "fired (push_type t d) = fired d"
  "requests (push_type t d) = requests d" "address (push_type t d) = address d"
  "mac (push_type t d) = mac d" "connected (push_type t d) = connected d"
  "deviceType (push_type t d) = deviceType d" "shade1 (push_type t d) = shade1 d"
  "shade2 (push_type t d) = shade2 d" "dimmerGroup1 (push_type t d) = dimmerGroup1 d"
  "dimmerGroup2 (push_type t d) = dimmerGroup2 d" "motionSensor (push_type t d) = motionSensor d"
  "thermostat (push_type t d) = thermostat d" "thermostatOutput (push_type t d) = thermostatOutput d"
  by (simp_all add: push_type_def)

lemmas sample_ev = sample_device_def sample_info_def build_schema_def resolve_capabilities_def new_dingz_def
  only_if_def addKey_def addDimmer_def addShade_def addThermostat_def addProperty_fields addAction_fields addEvent_fields
  push_type_fields show_int_radix_def show_radix.simps digit_char_def show_num_def hasProperty_def findProperty_def
  Let_def

lemma sample_properties: "properties sample_device =
  [(''led'', new_property ''LED'' ''boolean'' (Bool True) False Undefined Undefined),
   (''ledColor'', new_property ''LED Color'' ''string'' (Bool True) False Undefined Undefined),
   (''lightLevel'', new_property ''Brightness'' ''integer'' (Bool True) True (Num 0) Undefined),
   (''temperature'', new_property ''Temperature'' ''number'' (Bool True) True Undefined Undefined),
   (''key1'', new_property ''Key 1'' ''boolean'' (Bool True) True Undefined Undefined),
   (''key2'', new_property ''Key 2'' ''boolean'' (Bool True) True Undefined Undefined),
   (''key3'', new_property ''Key 3'' ''boolean'' (Bool True) True Undefined Undefined),
   (''key4'', new_property ''Key 4'' ''boolean'' (Bool True) True Undefined Undefined),
   (''dimmer1'', new_property ''Dimmer 1'' ''boolean'' (Bool True) False Undefined Undefined),
   (''dimmer1Brightness'', new_property ''Dimmer 1 Brightness'' ''integer'' (Bool True) False (Num 0) (Num 100)),
   (''dimmer1Power'', new_property ''Dimmer 1 Power'' ''number'' (Bool True) True (Num 0) (Num 300)),
   (''dimmer2'', new_property ''Dimmer 2'' ''boolean'' (Bool True) False Undefined Undefined),
   (''dimmer2Brightness'', new_property ''Dimmer 2 Brightness'' ''integer'' (Bool True) False (Num 0) (Num 100)),
   (''dimmer2Power'', new_property ''Dimmer 2 Power'' ''number'' (Bool True) True (Num 0) (Num 300)),
   (''shade2'', new_property ''Shade 2 Position'' ''integer'' (Bool True) False (Num 0) (Num 100)),
   (''shade2Lamella'', new_property ''Shade 2 Lamella'' ''integer'' (Bool True) False (Num 0) (Num 100)),
   (''shade2Power'', new_property ''Shade 2 Power'' ''number'' (Bool True) True (Num 0) (Num 300)),
   (''motion'', new_property ''Motion'' ''boolean'' (Bool True) True Undefined Undefined),
   (''targetTemperature'', new_property ''Target Temperature'' ''number'' (Bool True) False (Num (- 55)) (Num 125)),
   (''thermostatMode'', new_property ''Thermostat Mode'' ''string'' (Bool True) False Undefined Undefined),
   (''thermostatState'', new_property ''Thermostat State'' ''string'' (Bool True) True Undefined Undefined),
   (''dimmer3Power'', new_property ''Thermostat Valve Power'' ''number'' (Bool True) True (Num 0) (Num 300))]"
  by (simp add: sample_ev)

lemma sample_flags:
  "address sample_device = Str ''10.0.0.2''" "connected sample_device"
  "\<not> dimmerGroup2 sample_device" "dimmerGroup1 sample_device"
  "thermostat sample_device" "thermostatOutput sample_device = Some 2"
  "shade2 sample_device" "\<not> shade1 sample_device"
  "fired sample_device = []" "requests sample_device = []"
  by (simp_all add: sample_ev)

section \<open>The property store\<close>

lemma findProperty_setCached:
  "findProperty k (setCachedValueAndNotify n v d) =
     (if k = n then map_option (\<lambda>p. p\<lparr> prop_value := v \<rparr>) (findProperty n d) else findProperty k d)"
  by (simp add: findProperty_def setCachedValueAndNotify_def map_of_map_entry split: option.splits)

lemma value_of_setCached:
  "value_of k (setCachedValueAndNotify n v d) =
     (if k = n then map_option (\<lambda>p. v) (findProperty n d) else value_of k d)"
  by (simp add: value_of_def findProperty_setCached option.map_comp comp_def)

lemma fired_set_value [simp]: "fired (state_of (set_value n a d)) = fired d"
  by (simp add: set_value_def setCachedValueAndNotify_def split: option.splits sum.splits)

section \<open>Serialization hides what is invisible\<close>

lemma map_of_delete_invisible:
  "map_of (delete_invisible vis es dict) k =
     (if \<exists>x. (k, x) \<in> set es \<and> vis x = Bool False then None else map_of dict k)"
proof (induction es arbitrary: dict)
  case Nil
  show ?case by simp
next
  case (Cons e es)
  obtain key x where e: "e = (key, x)" by (cases e)
  show ?case
    unfolding e by (auto simp: Cons.IH delete_conv')
qed

lemma asDict_lookup:
  assumes "distinct (map fst (properties d))" and "distinct (map fst (actions d))"
  shows "map_of (dict_properties (asDict d)) k =
           (case map_of (properties d) k of
              None \<Rightarrow> None
            | Some p \<Rightarrow> if prop_visible p = Bool False then None else Some p)"
    and "map_of (dict_actions (asDict d)) k =
           (case map_of (actions d) k of
              None \<Rightarrow> None
            | Some a \<Rightarrow> if act_visible a = Bool False then None else Some a)"
  using assms
  by (auto simp: asDict_def super_asDict_def Let_def map_of_delete_invisible
      split: option.splits dest: eq_key_imp_eq_value)

lemmas shade_ev = shade_device_def setShadeConfig_def addShade_def new_dingz_def nth_opt_def run_steps_def
  set_prop_visible_def set_prop_bounds_def findProperty_def addProperty_def addAction_def new_property_def
  show_int_radix_def show_radix.simps digit_char_def Let_def

lemma shade_properties:
  "properties shade_device =
     [(''shade1'', new_property ''Shade 1 Position'' ''integer'' (Bool True) False (Num 0) (Num 100)),
      (''shade1Lamella'', new_property ''Shade 1 Lamella'' ''integer'' (Bool False) False (Num 0) (Num 100)),
      (''shade1Power'', new_property ''Shade 1 Power'' ''number'' (Bool True) True (Num 0) (Num 300))]"
  by (simp add: shade_ev)

lemma shade_actions:
  "actions shade_device =
     [(''shade1up'', \<lparr> act_title = ''Shade 1 up'', act_visible = Undefined \<rparr>),
      (''shade1down'', \<lparr> act_title = ''Shade 1 down'', act_visible = Undefined \<rparr>),
      (''shade1stop'', \<lparr> act_title = ''Shade 1 stop'', act_visible = Undefined \<rparr>)]"
  by (simp add: shade_ev)

text \<open>
  C9. Serializing a device (\<open>asDict\<close>) leaves out the key of every property and of
  every action whose \<open>visible\<close> is \<open>false\<close>, and keeps, unchanged, every property and
  action whose \<open>visible\<close> is \<open>true\<close>. The keys of the container's maps are distinct.
\<close>

theorem asDict_visibility:
  assumes "distinct (map fst (properties d))" and "distinct (map fst (actions d))"
  shows "(\<forall>k p. map_of (properties d) k = Some p \<and> prop_visible p = Bool False
            \<longrightarrow> k \<notin> fst ` set (dict_properties (asDict d)))
       \<and> (\<forall>k p. map_of (properties d) k = Some p \<and> prop_visible p = Bool True
            \<longrightarrow> map_of (dict_properties (asDict d)) k = Some p)
       \<and> (\<forall>k a. map_of (actions d) k = Some a \<and> act_visible a = Bool False
            \<longrightarrow> k \<notin> fst ` set (dict_actions (asDict d)))
       \<and> (\<forall>k a. map_of (actions d) k = Some a \<and> act_visible a = Bool True
            \<longrightarrow> map_of (dict_actions (asDict d)) k = Some a)"
proof -
  have p: "\<And>k. map_of (dict_properties (asDict d)) k =
           (case map_of (properties d) k of
              None \<Rightarrow> None
            | Some p \<Rightarrow> if prop_visible p = Bool False then None else Some p)"
    using asDict_lookup(1)[OF assms] .
  have a: "\<And>k. map_of (dict_actions (asDict d)) k =
           (case map_of (actions d) k of
              None \<Rightarrow> None
            | Some a \<Rightarrow> if act_visible a = Bool False then None else Some a)"
    using asDict_lookup(2)[OF assms] .
  have np: "\<And>k. (k \<notin> fst ` set (dict_properties (asDict d))) = (map_of (dict_properties (asDict d)) k = None)"
    by (simp add: map_of_eq_None_iff)
  have na: "\<And>k. (k \<notin> fst ` set (dict_actions (asDict d))) = (map_of (dict_actions (asDict d)) k = None)"
    by (simp add: map_of_eq_None_iff)
  show ?thesis
    unfolding np na p a by simp
qed

text \<open>The shutter's slat property, made invisible by its configuration, is absent from
  the serialized device; the position property is there.\<close>

theorem asDict_visibility_witness:
  "distinct (map fst (properties shade_device)) \<and> distinct (map fst (actions shade_device))
   \<and> ''shade1Lamella'' \<notin> fst ` set (dict_properties (asDict shade_device))
   \<and> map_of (dict_properties (asDict shade_device)) ''shade1''
       = Some (new_property ''Shade 1 Position'' ''integer'' (Bool True) False (Num 0) (Num 100))"
proof -
  have d1: "distinct (map fst (properties shade_device))" by (simp add: shade_properties)
  have d2: "distinct (map fst (actions shade_device))" by (simp add: shade_actions)
  have l: "map_of (properties shade_device) ''shade1Lamella''
      = Some (new_property ''Shade 1 Lamella'' ''integer'' (Bool False) False (Num 0) (Num 100))"
    by (simp add: shade_properties)
  have s: "map_of (properties shade_device) ''shade1''
      = Some (new_property ''Shade 1 Position'' ''integer'' (Bool True) False (Num 0) (Num 100))"
    by (simp add: shade_properties)
  note v = asDict_visibility[OF d1 d2]
  have "''shade1Lamella'' \<notin> fst ` set (dict_properties (asDict shade_device))"
    using v l by (simp add: new_property_def)
  moreover have "map_of (dict_properties (asDict shade_device)) ''shade1''
       = Some (new_property ''Shade 1 Position'' ''integer'' (Bool True) False (Num 0) (Num 100))"
    using v s by (simp add: new_property_def)
  ultimately show ?thesis using d1 d2 by simp
qed

section \<open>The HTTP call and its failures\<close>

text \<open>What the \<open>catch\<close> block does with a rejection of \<open>fetch\<close> and with a response
  that is not a success.\<close>

lemma apiCall_unreachable:
  assumes "truthy (address d)"
    and "fetch method (''http://'' @ to_string (address d) @ ''/api/v1/'' @ path) = Inl e"
    and "err_type e = Some ''system''"
    and "err_code e = Some ''ETIMEDOUT'' \<or> err_code e = Some ''EHOSTUNREACH''"
  shows "snd (apiCall fetch path method d) = Inr None"
    and "\<not> connected (fst (apiCall fetch path method d))"
  using assms by (auto simp: apiCall_def apiCall_catch_def connectedNotify_def Let_def)

lemma apiCall_other_failure:
  assumes "truthy (address d)"
    and "fetch method (''http://'' @ to_string (address d) @ ''/api/v1/'' @ path) = Inl e"
    and "\<not> (err_type e = Some ''system'' \<and> (err_code e = Some ''ETIMEDOUT'' \<or> err_code e = Some ''EHOSTUNREACH''))"
  shows "snd (apiCall fetch path method d) = Inl e"
    and "connected (fst (apiCall fetch path method d)) = connected d"
  using assms by (auto simp: apiCall_def apiCall_catch_def connectedNotify_def Let_def)

lemma apiCall_status_error:
  assumes "truthy (address d)"
    and "fetch method (''http://'' @ to_string (address d) @ ''/api/v1/'' @ path) = Inr r"
    and "\<not> (resp_ok r \<and> resp_status r < 400)"
    and "resp_text r = Inr t"
  shows "snd (apiCall fetch path method d) = Inl (JsError None None (show_radix 10 (resp_status r) @ '': '' @ t))"
    and "connected (fst (apiCall fetch path method d)) = connected d"
  using assms by (auto simp: apiCall_def apiCall_catch_def connectedNotify_def Let_def)

text \<open>
  C4. A failure of \<open>apiCall\<close> that is a system error with code \<open>ETIMEDOUT\<close> or
  \<open>EHOSTUNREACH\<close> should disconnect the device and not be thrown again. The lemmas
  above show this for a rejection of \<open>fetch\<close>. Here the response is a 200 to a GET
  and reading its JSON body fails with such an error: the call rejects with the error
  and the device stays connected.
\<close>

theorem apiCall_body_timeout_rethrown:
  "apiCall
     (\<lambda>method url. Inr \<lparr> resp_ok = True, resp_status = 200, resp_text = Inr [],
          resp_json = (Inl (JsError (Some ''system'') (Some ''ETIMEDOUT'') ''read ETIMEDOUT'') :: js_error + jsval) \<rparr>)
     ''state'' ''GET'' (new_dingz ''AABBCC'' (Str ''10.0.0.2''))
   = ((new_dingz ''AABBCC'' (Str ''10.0.0.2''))\<lparr> requests := [(''GET'', ''http://10.0.0.2/api/v1/state'')] \<rparr>,
      Inl (JsError (Some ''system'') (Some ''ETIMEDOUT'') ''read ETIMEDOUT''))
   \<and> connected (fst (apiCall
     (\<lambda>method url. Inr \<lparr> resp_ok = True, resp_status = 200, resp_text = Inr [],
          resp_json = (Inl (JsError (Some ''system'') (Some ''ETIMEDOUT'') ''read ETIMEDOUT'') :: js_error + jsval) \<rparr>)
     ''state'' ''GET'' (new_dingz ''AABBCC'' (Str ''10.0.0.2''))))"
  by (simp add: apiCall_def new_dingz_def Let_def)

section \<open>Evaluating messages\<close>


lemmas mqtt_ev = mqttEvent_def index_plus_one_def parseInt10_def read_signed_def read_unsigned_def
  digit_of_def is_space_def show_num_def show_int_radix_def show_radix.simps digit_char_def nth_opt_def Let_def

lemma button_path:
  "mqttEvent ''dz1/event/button/0'' message d = button_event ''key1'' message (d\<lparr> deviceType := Str ''dz1'' \<rparr>)"
  by (simp add: mqtt_ev)

lemma thermostat_path:
  "mqttEvent ''dz1/state/thermostat'' message d =
     run_steps
       [ set_value_opt ''thermostatMode'' (get_member message ''status''),
         set_value_opt ''thermostatState''
           (bind_arg (get_member message ''status'') (\<lambda>st.
              if st = Str ''on'' then get_member message ''mode'' else Inr (Str ''off''))),
         set_value_opt ''targetTemperature'' (get_member message ''target'') ]
       (d\<lparr> deviceType := Str ''dz1'' \<rparr>)"
  by (simp add: mqtt_ev)

lemma sample_find:
  "findProperty ''key1'' sample_device = Some (new_property ''Key 1'' ''boolean'' (Bool True) True Undefined Undefined)"
  "findProperty ''key2'' sample_device = Some (new_property ''Key 2'' ''boolean'' (Bool True) True Undefined Undefined)"
  "findProperty ''motion'' sample_device = Some (new_property ''Motion'' ''boolean'' (Bool True) True Undefined Undefined)"
  "findProperty ''thermostatMode'' sample_device = Some (new_property ''Thermostat Mode'' ''string'' (Bool True) False Undefined Undefined)"
  "findProperty ''thermostatState'' sample_device = Some (new_property ''Thermostat State'' ''string'' (Bool True) True Undefined Undefined)"
  "findProperty ''targetTemperature'' sample_device = Some (new_property ''Target Temperature'' ''number'' (Bool True) False (Num (- 55)) (Num 125))"
  "findProperty ''dimmer3Power'' sample_device = Some (new_property ''Thermostat Valve Power'' ''number'' (Bool True) True (Num 0) (Num 300))"
  by (simp_all add: findProperty_def sample_properties)

lemma findProperty_deviceType [simp]: "findProperty n (d\<lparr> deviceType := t \<rparr>) = findProperty n d"
  by (simp add: findProperty_def)

lemma fired_set_value_opt [simp]: "fired (state_of (set_value_opt n a d)) = fired d"
  by (simp add: set_value_opt_def setCachedValueAndNotify_def split: option.splits sum.splits)

section \<open>Button events on the bus\<close>

text \<open>The tokens \<open>m1\<close>, \<open>m2\<close> and \<open>m3\<close> fire the single, double and triple press event of
  the key and clear its pressed property.\<close>

lemma button_press_counts:
  assumes "hasProperty keyID d"
  shows "button_event keyID (Str ''m1'') d = Done (setCachedValueAndNotify keyID (Bool False) (d\<lparr> fired := fired d @ [keyID @ ''single''] \<rparr>))"
    and "button_event keyID (Str ''m2'') d = Done (setCachedValueAndNotify keyID (Bool False) (d\<lparr> fired := fired d @ [keyID @ ''double''] \<rparr>))"
    and "button_event keyID (Str ''m3'') d = Done (setCachedValueAndNotify keyID (Bool False) (d\<lparr> fired := fired d @ [keyID @ ''tripple''] \<rparr>))"
  using assms
  by (auto simp: button_event_def run_steps_def eventNotify_def set_value_def hasProperty_def findProperty_def)

text \<open>
  C1. Each of the tokens \<open>m1\<close> .. \<open>m4\<close> should fire one event of its ordinal and then
  clear the pressed property. The token \<open>m4\<close> reaches \<open>mqttEvent\<close> as the text
  \<open>m4\<close>; on the topic of key 1 it fires no event at all, on any device, and only
  clears the pressed property.
\<close>

theorem legacy_m4_fires_no_event:
  "decode_legacy ''m4'' = Some (Str ''m4'')
   \<and> fired (state_of (mqttEvent ''dz1/event/button/0'' (Str ''m4'') d)) = fired d
   \<and> mqttEvent ''dz1/event/button/0'' (Str ''m4'') sample_device
       = Done (setCachedValueAndNotify ''key1'' (Bool False) (sample_device\<lparr> deviceType := Str ''dz1'' \<rparr>))
   \<and> fired (state_of (mqttEvent ''dz1/event/button/0'' (Str ''m4'') sample_device)) = []"
proof -
  have a: "decode_legacy ''m4'' = Some (Str ''m4'')"
    by (simp add: decode_legacy_def startsWith_def)
  have b: "mqttEvent ''dz1/event/button/0'' (Str ''m4'') x
       = set_value ''key1'' (Inr (Bool False)) (x\<lparr> deviceType := Str ''dz1'' \<rparr>)" for x
    by (simp add: button_path button_event_def startsWith_def)
  have c: "fired (state_of (mqttEvent ''dz1/event/button/0'' (Str ''m4'') d)) = fired d"
    by (simp add: b)
  have e: "mqttEvent ''dz1/event/button/0'' (Str ''m4'') sample_device
       = Done (setCachedValueAndNotify ''key1'' (Bool False) (sample_device\<lparr> deviceType := Str ''dz1'' \<rparr>))"
    by (simp add: b set_value_def sample_find)
  have f: "fired (state_of (mqttEvent ''dz1/event/button/0'' (Str ''m4'') sample_device)) = []"
    by (simp add: b sample_flags)
  from a c e f show ?thesis by simp
qed

section \<open>Thermostat state on the bus\<close>

text \<open>
  C8. The displayed thermostat mode should be \<open>off\<close>, \<open>heat\<close> or \<open>cool\<close>, derived from the
  enabled flag and the heating/cooling value, on the push path as on the poll path. A
  \<open>state/thermostat\<close> message with status \<open>on\<close> and mode \<open>heating\<close> sets the mode property
  to the text \<open>on\<close>.
\<close>

theorem push_thermostat_mode_is_raw_status:
  "value_of ''thermostatMode''
     (state_of (mqttEvent ''dz1/state/thermostat''
        (Obj [(''status'', Str ''on''), (''mode'', Str ''heating''), (''target'', Num 21)]) sample_device))
   = Some (Str ''on'')"
  by (simp add: thermostat_path run_steps_def set_value_opt_def sample_find
      value_of_setCached findProperty_setCached bind_arg_def)

section \<open>Webhook events\<close>

lemmas generic_ev = handleGenericEvent_def parseInt_def read_signed_def read_unsigned_def startsWith_def
  digit_of_def is_space_def Let_def

lemma parseInt_digits:
  "parseInt ''1'' = Some 1" "parseInt ''2'' = Some 2" "parseInt ''3'' = Some 3"
  "parseInt ''4'' = Some 4" "parseInt ''5'' = Some 5"
  by (simp_all add: generic_ev)

text \<open>
  C7, as amended. For an index 1..4 the action codes 1, 2, 3, 20 and 21 fire the single,
  double, long, triple and quadruple press event of that key; 8 and \<open>begin\<close> set the key's
  pressed property to true, 9 and \<open>end\<close> to false. For index 5 the codes 8 and 9 set the
  motion property to true and false, and \<open>begin\<close> and \<open>end\<close> change nothing. An index
  above 5 changes nothing.
\<close>

theorem generic_event_table:
  "(index \<in> set [''1'', ''2'', ''3'', ''4''] \<longrightarrow>
      handleGenericEvent index ''1'' d = Done (d\<lparr> fired := fired d @ [''key'' @ index @ ''single''] \<rparr>)
    \<and> handleGenericEvent index ''2'' d = Done (d\<lparr> fired := fired d @ [''key'' @ index @ ''double''] \<rparr>)
    \<and> handleGenericEvent index ''3'' d = Done (d\<lparr> fired := fired d @ [''key'' @ index @ ''long''] \<rparr>)
    \<and> handleGenericEvent index ''20'' d = Done (d\<lparr> fired := fired d @ [''key'' @ index @ ''tripple''] \<rparr>)
    \<and> handleGenericEvent index ''21'' d = Done (d\<lparr> fired := fired d @ [''key'' @ index @ ''quadruple''] \<rparr>)
    \<and> (hasProperty (''key'' @ index) d \<longrightarrow>
          handleGenericEvent index ''8'' d = Done (setCachedValueAndNotify (''key'' @ index) (Bool True) d)
        \<and> handleGenericEvent index ''begin'' d = Done (setCachedValueAndNotify (''key'' @ index) (Bool True) d)
        \<and> handleGenericEvent index ''9'' d = Done (setCachedValueAndNotify (''key'' @ index) (Bool False) d)
        \<and> handleGenericEvent index ''end'' d = Done (setCachedValueAndNotify (''key'' @ index) (Bool False) d)))
   \<and> (hasProperty ''motion'' d \<longrightarrow>
          handleGenericEvent ''5'' ''8'' d = Done (setCachedValueAndNotify ''motion'' (Bool True) d)
        \<and> handleGenericEvent ''5'' ''9'' d = Done (setCachedValueAndNotify ''motion'' (Bool False) d))
   \<and> handleGenericEvent ''5'' ''begin'' d = Done d
   \<and> handleGenericEvent ''5'' ''end'' d = Done d
   \<and> (\<forall>n. parseInt index = Some n \<and> n > 5 \<longrightarrow> handleGenericEvent index action d = Done d)"
proof -
  have five: "handleGenericEvent ''5'' a d =
      (if a = ''8'' then set_value ''motion'' (Inr (Bool True)) d
       else if a = ''9'' then set_value ''motion'' (Inr (Bool False)) d else Done d)" for a
    by (simp add: handleGenericEvent_def parseInt_digits)
  have key: "handleGenericEvent index a d =
      (let keyID = ''key'' @ index in
         if a = ''1'' then eventNotify (keyID @ ''single'') d
         else if a = ''2'' then eventNotify (keyID @ ''double'') d
         else if a = ''3'' then eventNotify (keyID @ ''long'') d
         else if a = ''20'' then eventNotify (keyID @ ''tripple'') d
         else if a = ''21'' then eventNotify (keyID @ ''quadruple'') d
         else if a = ''8'' \<or> a = ''begin'' then set_value keyID (Inr (Bool True)) d
         else if a = ''9'' \<or> a = ''end'' then set_value keyID (Inr (Bool False)) d
         else Done d)" if "index \<in> set [''1'', ''2'', ''3'', ''4'']" for a
    using that by (auto simp: handleGenericEvent_def parseInt_digits)
  have above: "handleGenericEvent index action d = Done d" if "parseInt index = Some n" "n > 5" for n
    using that by (simp add: handleGenericEvent_def)
  show ?thesis
    using above
    by (auto simp: five key eventNotify_def set_value_def hasProperty_def split: option.splits)
qed

theorem generic_event_table_witness:
  "''2'' \<in> set [''1'', ''2'', ''3'', ''4''] \<and> hasProperty ''key2'' sample_device \<and> hasProperty ''motion'' sample_device
   \<and> fired (state_of (handleGenericEvent ''2'' ''20'' sample_device)) = [''key2tripple'']
   \<and> value_of ''key2'' (state_of (handleGenericEvent ''2'' ''begin'' sample_device)) = Some (Bool True)
   \<and> value_of ''motion'' (state_of (handleGenericEvent ''5'' ''8'' sample_device)) = Some (Bool True)
   \<and> parseInt ''6'' = Some 6
   \<and> handleGenericEvent ''6'' ''8'' sample_device = Done sample_device"
proof -
  have h: "hasProperty ''key2'' sample_device" "hasProperty ''motion'' sample_device"
    by (simp_all add: hasProperty_def sample_find)
  have six: "parseInt ''6'' = Some 6" by (simp add: generic_ev)
  note t = generic_event_table[where index="''2''" and d=sample_device and action="''8''"]
  note u = generic_event_table[where index="''6''" and d=sample_device and action="''8''"]
  have "fired (state_of (handleGenericEvent ''2'' ''20'' sample_device)) = [''key2tripple'']"
    using t by (simp add: sample_flags)
  moreover have "value_of ''key2'' (state_of (handleGenericEvent ''2'' ''begin'' sample_device)) = Some (Bool True)"
    using t h by (simp add: value_of_setCached sample_find)
  moreover have "value_of ''motion'' (state_of (handleGenericEvent ''5'' ''8'' sample_device)) = Some (Bool True)"
    using t h by (simp add: value_of_setCached sample_find)
  moreover have "handleGenericEvent ''6'' ''8'' sample_device = Done sample_device"
    using u six by simp
  ultimately show ?thesis using h six by simp
qed

text \<open>C7 as stated fails: at index 5 the action \<open>begin\<close> leaves the motion property as
  it was.\<close>

theorem generic_event_motion_begin_counterexample:
  "hasProperty ''motion'' sample_device
   \<and> handleGenericEvent ''5'' ''begin'' sample_device = Done sample_device
   \<and> value_of ''motion'' (state_of (handleGenericEvent ''5'' ''begin'' sample_device)) = Some Undefined
   \<and> value_of ''motion'' (state_of (handleGenericEvent ''5'' ''begin'' sample_device)) \<noteq> Some (Bool True)"
  by (simp add: handleGenericEvent_def parseInt_digits hasProperty_def sample_find value_of_def new_property_def)

section \<open>What a step leaves alone\<close>

lemma keeps_refl [simp]: "keeps N d d"
  by (simp add: keeps_def)

lemma keeps_trans: "keeps N d d' \<Longrightarrow> keeps N d' d'' \<Longrightarrow> keeps N d d''"
proof -
  assume a: "keeps N d d'" and b: "keeps N d' d''"
  have "d''\<lparr> properties := properties d \<rparr> = (d''\<lparr> properties := properties d' \<rparr>)\<lparr> properties := properties d \<rparr>"
    by simp
  also have "\<dots> = d'\<lparr> properties := properties d \<rparr>" using b by (simp add: keeps_def)
  also have "\<dots> = d" using a by (simp add: keeps_def)
  finally show ?thesis using a b by (simp add: keeps_def)
qed

lemma keeps_mono: "keeps N d d' \<Longrightarrow> M \<subseteq> N \<Longrightarrow> keeps M d d'"
  by (auto simp: keeps_def)

lemma keeps_fields:
  assumes "keeps N d d'"
  shows "dimmerGroup1 d' = dimmerGroup1 d" "dimmerGroup2 d' = dimmerGroup2 d"
    "shade1 d' = shade1 d" "shade2 d' = shade2 d"
    "thermostat d' = thermostat d" "thermostatOutput d' = thermostatOutput d"
    "requests d' = requests d" "fired d' = fired d" "connected d' = connected d"
    "address d' = address d"
proof -
  from assms have e: "d'\<lparr> properties := properties d \<rparr> = d" by (simp add: keeps_def)
  show "dimmerGroup1 d' = dimmerGroup1 d" using arg_cong[OF e, of dimmerGroup1] by simp
  show "dimmerGroup2 d' = dimmerGroup2 d" using arg_cong[OF e, of dimmerGroup2] by simp
  show "shade1 d' = shade1 d" using arg_cong[OF e, of shade1] by simp
  show "shade2 d' = shade2 d" using arg_cong[OF e, of shade2] by simp
  show "thermostat d' = thermostat d" using arg_cong[OF e, of thermostat] by simp
  show "thermostatOutput d' = thermostatOutput d" using arg_cong[OF e, of thermostatOutput] by simp
  show "requests d' = requests d" using arg_cong[OF e, of requests] by simp
  show "fired d' = fired d" using arg_cong[OF e, of fired] by simp
  show "connected d' = connected d" using arg_cong[OF e, of connected] by simp
  show "address d' = address d" using arg_cong[OF e, of address] by simp
qed

lemma keeps_find: "keeps N d d' \<Longrightarrow> n \<in> N \<Longrightarrow> findProperty n d' = findProperty n d"
  by (simp add: keeps_def)

lemma keeps_setCached: "n \<notin> N \<Longrightarrow> keeps N d (setCachedValueAndNotify n v d)"
  by (auto simp: keeps_def findProperty_setCached) (simp add: setCachedValueAndNotify_def)

lemma keeps_set_value: "n \<notin> N \<Longrightarrow> keeps N d (state_of (set_value n a d))"
  by (auto simp: set_value_def keeps_setCached split: option.splits sum.splits)

lemma keeps_set_prop_bounds: "n \<notin> N \<Longrightarrow> keeps N d (state_of (set_prop_bounds n lo hi d))"
  by (auto simp: set_prop_bounds_def keeps_def findProperty_def map_of_map_entry split: option.splits)

lemma keeps_for_each:
  assumes step: "\<And>x d. Q d \<Longrightarrow> keeps N d (state_of (body x d))"
    and inv: "\<And>d d'. Q d \<Longrightarrow> keeps N d d' \<Longrightarrow> Q d'"
    and "Q d"
  shows "keeps N d (state_of (for_each body xs d))"
  using \<open>Q d\<close>
proof (induction xs arbitrary: d)
  case Nil
  show ?case by simp
next
  case (Cons x xs)
  have k: "keeps N d (state_of (body x d))" using step[OF Cons.prems] .
  show ?case
  proof (cases "body x d")
    case (Done d')
    with k have kd: "keeps N d d'" by simp
    then have "Q d'" using inv Cons.prems by blast
    then have "keeps N d' (state_of (for_each body xs d'))" by (rule Cons.IH)
    with kd show ?thesis using Done by (simp add: keeps_trans[OF kd])
  next
    case (Threw e d')
    with k show ?thesis by simp
  qed
qed

lemma keeps_run_steps:
  assumes step: "\<And>s d. s \<in> set steps \<Longrightarrow> Q d \<Longrightarrow> keeps N d (state_of (s d))"
    and inv: "\<And>d d'. Q d \<Longrightarrow> keeps N d d' \<Longrightarrow> Q d'"
    and "Q d"
  shows "keeps N d (state_of (run_steps steps d))"
  using \<open>Q d\<close> step
proof (induction steps arbitrary: d)
  case Nil
  show ?case by (simp add: run_steps_def)
next
  case (Cons s steps)
  have k: "keeps N d (state_of (s d))" using Cons.prems by simp
  show ?case
  proof (cases "s d")
    case (Done d')
    with k have kd: "keeps N d d'" by simp
    then have q: "Q d'" using inv Cons.prems(1) by blast
    have "keeps N d' (state_of (run_steps steps d'))"
      using Cons.IH[OF q] Cons.prems(2) by simp
    then show ?thesis using Done kd by (simp add: run_steps_def keeps_trans[OF kd])
  next
    case (Threw e d')
    with k show ?thesis by (simp add: run_steps_def)
  qed
qed

section \<open>Property names\<close>

lemma show_radix_nonempty: "show_radix b n \<noteq> []"
  by (subst show_radix.simps) simp

lemma digit_char_small:
  assumes "n < 10"
  shows "(digit_char n = CHR ''3'') = (n = 3)" and "(digit_char n = CHR ''4'') = (n = 4)"
proof -
  have ten: "(10::nat) = Suc (Suc (Suc (Suc (Suc (Suc (Suc (Suc (Suc (Suc 0)))))))))" by simp
  from assms show "(digit_char n = CHR ''3'') = (n = 3)" and "(digit_char n = CHR ''4'') = (n = 4)"
    unfolding ten less_Suc_eq by (auto simp: digit_char_def)
qed

lemma show_int_is_3: "(show_int_radix 10 k = ''3'') = (k = 3)"
proof (cases "k < 0")
  case True
  then show ?thesis by (simp add: show_int_radix_def)
next
  case False
  show ?thesis
  proof (cases "nat k < 10")
    case True
    with False show ?thesis
      by (subst show_int_radix_def, subst show_radix.simps) (auto simp: digit_char_small)
  next
    case False
    with \<open>\<not> k < 0\<close> show ?thesis
      by (subst show_int_radix_def, subst show_radix.simps) (auto simp: show_radix_nonempty)
  qed
qed

lemma show_int_is_4: "(show_int_radix 10 k = ''4'') = (k = 4)"
proof (cases "k < 0")
  case True
  then show ?thesis by (simp add: show_int_radix_def)
next
  case False
  show ?thesis
  proof (cases "nat k < 10")
    case True
    with False show ?thesis
      by (subst show_int_radix_def, subst show_radix.simps) (auto simp: digit_char_small)
  next
    case False
    with \<open>\<not> k < 0\<close> show ?thesis
      by (subst show_int_radix_def, subst show_radix.simps) (auto simp: show_radix_nonempty)
  qed
qed

lemma show_small_head:
  assumes "k \<le> 2"
  shows "\<exists>c cs. show_int_radix 10 k = c # cs \<and> c \<noteq> CHR ''3'' \<and> c \<noteq> CHR ''4''"
proof (cases "k < 0")
  case True
  then show ?thesis by (simp add: show_int_radix_def)
next
  case False
  with assms consider "k = 0" | "k = 1" | "k = 2" by arith
  then show ?thesis
  proof cases
    case 1
    then show ?thesis by (simp add: show_int_radix_def show_radix.simps digit_char_def)
  next
    case 2
    then show ?thesis by (simp add: show_int_radix_def show_radix.simps digit_char_def)
  next
    case 3
    then show ?thesis by (simp add: show_int_radix_def show_radix.simps digit_char_def)
  qed
qed

lemma low_dimmer_names:
  assumes "k \<le> 2"
  shows "''dimmer'' @ show_int_radix 10 k @ sfx \<notin> high_dimmer_names"
proof -
  from show_small_head[OF assms] obtain c cs
    where "show_int_radix 10 k = c # cs" "c \<noteq> CHR ''3''" "c \<noteq> CHR ''4''" by blast
  then show ?thesis by (simp add: high_dimmer_names_def)
qed

lemma power_suffix:
  "(s @ ''Power'' = ''3Power'') = (s = ''3'')" "(s @ ''Power'' = ''4Power'') = (s = ''4'')"
  "s @ ''Power'' \<noteq> ''3''" "s @ ''Power'' \<noteq> ''4''"
  "s @ ''Power'' \<noteq> ''3Brightness''" "s @ ''Power'' \<noteq> ''4Brightness''"
proof -
  have a: "''3Power'' = ''3'' @ ''Power''" and b: "''4Power'' = ''4'' @ ''Power''" by simp_all
  show "(s @ ''Power'' = ''3Power'') = (s = ''3'')" unfolding a by (rule append_same_eq)
  show "(s @ ''Power'' = ''4Power'') = (s = ''4'')" unfolding b by (rule append_same_eq)
  show "s @ ''Power'' \<noteq> ''3''" "s @ ''Power'' \<noteq> ''4''"
    by (auto dest: arg_cong[where f = length])
  show "s @ ''Power'' \<noteq> ''3Brightness''" "s @ ''Power'' \<noteq> ''4Brightness''"
    by (auto dest: arg_cong[where f = last])
qed

lemma valve_power_name:
  "(''dimmer'' @ show_num (map_option (\<lambda>i. i + 1) out) @ ''Power'' = ''dimmer3Power'') = (out = Some 2)"
  "(''dimmer'' @ show_num (map_option (\<lambda>i. i + 1) out) @ ''Power'' = ''dimmer4Power'') = (out = Some 3)"
  "''dimmer'' @ show_num (map_option (\<lambda>i. i + 1) out) @ ''Power''
     \<notin> {''dimmer3'', ''dimmer3Brightness'', ''dimmer4'', ''dimmer4Brightness''}"
proof -
  show "(''dimmer'' @ show_num (map_option (\<lambda>i. i + 1) out) @ ''Power'' = ''dimmer3Power'') = (out = Some 2)"
    by (cases out) (auto simp: power_suffix show_num_def show_int_is_3)
  show "(''dimmer'' @ show_num (map_option (\<lambda>i. i + 1) out) @ ''Power'' = ''dimmer4Power'') = (out = Some 3)"
    by (cases out) (auto simp: power_suffix show_num_def show_int_is_4)
  show "''dimmer'' @ show_num (map_option (\<lambda>i. i + 1) out) @ ''Power''
     \<notin> {''dimmer3'', ''dimmer3Brightness'', ''dimmer4'', ''dimmer4Brightness''}"
    by (simp add: power_suffix)
qed

section \<open>What the poll leaves alone\<close>

lemma poll_dimmer_skips:
  "\<not> ((dimmer_absolute e > 1 \<and> dimmerGroup2 d) \<or> (dimmer_absolute e \<le> 1 \<and> dimmerGroup1 d))
     \<Longrightarrow> poll_dimmer state e d = Done d"
  by (auto simp: poll_dimmer_def)

lemma poll_dimmer_keeps:
  assumes "\<not> dimmerGroup2 d"
  shows "keeps high_dimmer_names d (state_of (poll_dimmer state e d))"
proof (cases "dimmer_absolute e \<le> 1 \<and> dimmerGroup1 d")
  case True
  then have n: "''dimmer'' @ show_int_radix 10 (dimmer_absolute e + 1) @ sfx \<notin> high_dimmer_names" for sfx
    by (intro low_dimmer_names) simp
  have n0: "''dimmer'' @ show_int_radix 10 (dimmer_absolute e + 1) \<notin> high_dimmer_names"
    using n[of "[]"] by simp
  have "keeps high_dimmer_names d (state_of (run_steps
           [ set_value (''dimmer'' @ show_int_radix 10 (dimmer_absolute e + 1)) (Inr (dimmer_on e)),
             set_value (''dimmer'' @ show_int_radix 10 (dimmer_absolute e + 1) @ ''Brightness'') (Inr (dimmer_value e)),
             set_value (''dimmer'' @ show_int_radix 10 (dimmer_absolute e + 1) @ ''Power'')
               (power_output state (Some (dimmer_absolute e))) ] d))"
  proof (rule keeps_run_steps[where Q = "\<lambda>_. True"])
    fix s x
    assume "s \<in> set
           [ set_value (''dimmer'' @ show_int_radix 10 (dimmer_absolute e + 1)) (Inr (dimmer_on e)),
             set_value (''dimmer'' @ show_int_radix 10 (dimmer_absolute e + 1) @ ''Brightness'') (Inr (dimmer_value e)),
             set_value (''dimmer'' @ show_int_radix 10 (dimmer_absolute e + 1) @ ''Power'')
               (power_output state (Some (dimmer_absolute e))) ]"
    then show "keeps high_dimmer_names x (state_of (s x))"
      using keeps_set_value[OF n0] keeps_set_value[OF n[of "''Brightness''"]]
        keeps_set_value[OF n[of "''Power''"]]
      by auto
  qed simp_all
  then show ?thesis using True assms by (simp add: poll_dimmer_def Let_def)
next
  case False
  then show ?thesis using assms by (auto simp: poll_dimmer_def)
qed

lemma poll_blind_keeps: "keeps high_dimmer_names d (state_of (poll_blind state b d))"
proof (cases "(blind_absolute b = 0 \<and> shade1 d) \<or> (blind_absolute b = 1 \<and> shade2 d)")
  case True
  have names: "CHR ''s'' # t \<notin> high_dimmer_names" for t
    by (simp add: high_dimmer_names_def)
  show ?thesis
    unfolding poll_blind_def Let_def using True
    by (simp only: if_True, intro keeps_run_steps[where Q = "\<lambda>_. True"])
       (auto simp: keeps_set_value names split: sum.splits)
next
  case False
  then show ?thesis by (auto simp: poll_blind_def)
qed

lemma poll_thermostat_keeps:
  assumes "N \<subseteq> high_dimmer_names"
    and "thermostat d \<and> truthy (thermostat_active state)
           \<Longrightarrow> ''dimmer'' @ show_num (map_option (\<lambda>i. i + 1) out) @ ''Power'' \<notin> N"
  shows "keeps N d (state_of (poll_thermostat out state d))"
proof (cases "truthy (thermostat_active state) \<and> thermostat d")
  case True
  have names: "''targetTemperature'' \<notin> N" "''thermostatMode'' \<notin> N" "''thermostatState'' \<notin> N"
    using assms(1) by (auto simp: high_dimmer_names_def)
  have p: "''dimmer'' @ show_num (map_option (\<lambda>i. i + 1) out) @ ''Power'' \<notin> N"
    using assms(2) True by simp
  have "keeps N d (state_of (run_steps
          [ set_value ''targetTemperature'' (Inr (thermostat_target_temp state)),
            set_prop_bounds ''targetTemperature''
              (thermostat_min_target_temp state) (thermostat_max_target_temp state),
            set_value ''thermostatMode''
              (Inr (if truthy (thermostat_enabled state)
                    then THERMOSTAT_STATE_TO_MODE (thermostat_mode state) else Str ''off'')),
            set_value ''thermostatState''
              (Inr (if truthy (thermostat_on state) then thermostat_mode state else Str ''off'')),
            set_value (''dimmer'' @ show_num (map_option (\<lambda>i. i + 1) out) @ ''Power'')
              (power_output state out) ] d))"
  proof (rule keeps_run_steps[where Q = "\<lambda>_. True"])
    fix s x
    assume "s \<in> set
          [ set_value ''targetTemperature'' (Inr (thermostat_target_temp state)),
            set_prop_bounds ''targetTemperature''
              (thermostat_min_target_temp state) (thermostat_max_target_temp state),
            set_value ''thermostatMode''
              (Inr (if truthy (thermostat_enabled state)
                    then THERMOSTAT_STATE_TO_MODE (thermostat_mode state) else Str ''off'')),
            set_value ''thermostatState''
              (Inr (if truthy (thermostat_on state) then thermostat_mode state else Str ''off'')),
            set_value (''dimmer'' @ show_num (map_option (\<lambda>i. i + 1) out) @ ''Power'')
              (power_output state out) ]"
    then show "keeps N x (state_of (s x))"
      using keeps_set_value[OF names(1)] keeps_set_value[OF names(2)] keeps_set_value[OF names(3)]
        keeps_set_prop_bounds[OF names(1)] keeps_set_value[OF p]
      by auto
  qed simp_all
  then show ?thesis using True by (simp add: poll_thermostat_def)
next
  case False
  then show ?thesis by (auto simp: poll_thermostat_def)
qed

lemma reconcile_keeps:
  assumes g: "\<not> dimmerGroup2 d" and sub: "N \<subseteq> high_dimmer_names"
    and valve: "thermostat d \<and> truthy (thermostat_active state)
           \<Longrightarrow> ''dimmer'' @ show_num (map_option (\<lambda>i. i + 1) out) @ ''Power'' \<notin> N"
  shows "keeps N d (state_of (reconcile hsv2rgb out state d))"
  unfolding reconcile_def
proof (rule keeps_run_steps[where Q = "\<lambda>x. \<not> dimmerGroup2 x \<and> thermostat x = thermostat d"])
  show "\<not> dimmerGroup2 d \<and> thermostat d = thermostat d" using g by simp
next
  fix x x' :: dingz
  assume "\<not> dimmerGroup2 x \<and> thermostat x = thermostat d" "keeps N x x'"
  then show "\<not> dimmerGroup2 x' \<and> thermostat x' = thermostat d"
    by (simp add: keeps_fields)
next
  fix s and x :: dingz
  assume mem: "s \<in> set
     [ (\<lambda>x. if sensors_brightness state \<noteq> Null
               then set_value ''lightLevel'' (Inr (sensors_brightness state)) x else Done x),
         (\<lambda>x. case sensors_room_temperature state of
                 Some t \<Rightarrow> set_value ''temperature'' (Inr t) x
               | None \<Rightarrow> Done x),
         set_value ''led'' (Inr (led_on state)),
         set_value ''ledColor''
           (Inr (Str (''#'' @ (if led_mode state = Str ''hsv'' then hsv2rgb (led_hsv state)
                               else to_string (led_rgb state))))),
         for_each (poll_dimmer state) (dimmers state),
         for_each (poll_blind state) (blinds state),
         poll_thermostat out state ]"
    and q: "\<not> dimmerGroup2 x \<and> thermostat x = thermostat d"
  have names: "''lightLevel'' \<notin> N" "''temperature'' \<notin> N" "''led'' \<notin> N" "''ledColor'' \<notin> N"
    using sub by (auto simp: high_dimmer_names_def)
  have dl: "keeps N x (state_of (for_each (poll_dimmer state) (dimmers state) x))"
  proof (rule keeps_mono[OF _ sub])
    show "keeps high_dimmer_names x (state_of (for_each (poll_dimmer state) (dimmers state) x))"
      by (rule keeps_for_each[where Q = "\<lambda>y. \<not> dimmerGroup2 y"])
         (auto simp: poll_dimmer_keeps keeps_fields q)
  qed
  have bl: "keeps N x (state_of (for_each (poll_blind state) (blinds state) x))"
  proof (rule keeps_mono[OF _ sub])
    show "keeps high_dimmer_names x (state_of (for_each (poll_blind state) (blinds state) x))"
      by (rule keeps_for_each[where Q = "\<lambda>y. True"]) (auto simp: poll_blind_keeps)
  qed
  have th: "keeps N x (state_of (poll_thermostat out state x))"
    using valve q by (intro poll_thermostat_keeps[OF sub]) simp
  from mem show "keeps N x (state_of (s x))"
    using keeps_set_value[OF names(1)] keeps_set_value[OF names(2)] keeps_set_value[OF names(3)]
      keeps_set_value[OF names(4)] dl bl th
    by (auto split: option.splits)
qed

lemma apiCall_frame:
  "properties (fst (apiCall fetch path method d)) = properties d"
  "dimmerGroup1 (fst (apiCall fetch path method d)) = dimmerGroup1 d"
  "dimmerGroup2 (fst (apiCall fetch path method d)) = dimmerGroup2 d"
  "thermostat (fst (apiCall fetch path method d)) = thermostat d"
  "thermostatOutput (fst (apiCall fetch path method d)) = thermostatOutput d"
  by (auto simp: apiCall_def apiCall_catch_def connectedNotify_def Let_def split: sum.splits)

lemma poll_by_snapshot:
  assumes "polled_snapshot fetch d = Some st"
  shows "poll fetch hsv2rgb d
           = reconcile hsv2rgb (thermostatOutput d) st (fst (apiCall fetch ''state'' ''GET'' d))"
    and "poll_index_js fetch hsv2rgb d
           = reconcile hsv2rgb (thermostat_out st) st (fst (apiCall fetch ''state'' ''GET'' d))"
proof -
  obtain d1 r where a: "apiCall fetch ''state'' ''GET'' d = (d1, r)" by (rule prod.exhaust)
  note fr = apiCall_frame[of fetch "''state''" "''GET''" d, unfolded a fst_conv]
  from assms a have c: "connected d" and r: "r = Inr (Some st)"
    by (auto simp: polled_snapshot_def split: if_splits sum.splits option.splits)
  show "poll fetch hsv2rgb d
           = reconcile hsv2rgb (thermostatOutput d) st (fst (apiCall fetch ''state'' ''GET'' d))"
    using c r a fr(5) by (simp add: poll_def)
  show "poll_index_js fetch hsv2rgb d
           = reconcile hsv2rgb (thermostat_out st) st (fst (apiCall fetch ''state'' ''GET'' d))"
    using c r a by (simp add: poll_index_js_def)
qed

lemma poll_without_snapshot:
  assumes "polled_snapshot fetch d = None"
  shows "properties (state_of (poll fetch hsv2rgb d)) = properties d"
    and "properties (state_of (poll_index_js fetch hsv2rgb d)) = properties d"
proof -
  obtain d1 r where a: "apiCall fetch ''state'' ''GET'' d = (d1, r)" by (rule prod.exhaust)
  note fr = apiCall_frame[of fetch "''state''" "''GET''" d, unfolded a fst_conv]
  from assms a have c: "\<not> connected d \<or> (\<exists>e. r = Inl e) \<or> r = Inr None"
    by (auto simp: polled_snapshot_def split: if_splits sum.splits option.splits)
  show "properties (state_of (poll fetch hsv2rgb d)) = properties d"
    using c a fr(1) by (auto simp: poll_def)
  show "properties (state_of (poll_index_js fetch hsv2rgb d)) = properties d"
    using c a fr(1) by (auto simp: poll_index_js_def)
qed

lemma poll_power_frame:
  assumes g: "\<not> dimmerGroup2 d" and n: "n \<in> high_dimmer_names"
    and c: "\<And>st. polled_snapshot fetch d = Some st \<Longrightarrow> thermostat d \<Longrightarrow> truthy (thermostat_active st)
              \<Longrightarrow> ''dimmer'' @ show_num (map_option (\<lambda>i. i + 1) (thermostatOutput d)) @ ''Power'' \<noteq> n"
  shows "findProperty n (state_of (poll fetch hsv2rgb d)) = findProperty n d"
proof (cases "polled_snapshot fetch d")
  case None
  then show ?thesis by (simp add: findProperty_def poll_without_snapshot)
next
  case (Some st)
  let ?d1 = "fst (apiCall fetch ''state'' ''GET'' d)"
  note fr = apiCall_frame[of fetch "''state''" "''GET''" d]
  have "keeps {n} ?d1 (state_of (reconcile hsv2rgb (thermostatOutput d) st ?d1))"
  proof (rule reconcile_keeps)
    show "\<not> dimmerGroup2 ?d1" using g fr(3) by simp
    show "{n} \<subseteq> high_dimmer_names" using n by simp
    show "''dimmer'' @ show_num (map_option (\<lambda>i. i + 1) (thermostatOutput d)) @ ''Power'' \<notin> {n}"
      if "thermostat ?d1 \<and> truthy (thermostat_active st)"
      using that c[OF Some] fr(4) by simp
  qed
  then have "findProperty n (state_of (reconcile hsv2rgb (thermostatOutput d) st ?d1)) = findProperty n ?d1"
    by (rule keeps_find) simp
  then show ?thesis using fr(1) by (simp add: poll_by_snapshot(1)[OF Some] findProperty_def)
qed

lemma poll_index_js_power_frame:
  assumes g: "\<not> dimmerGroup2 d" and n: "n \<in> high_dimmer_names"
    and c: "\<And>st. polled_snapshot fetch d = Some st \<Longrightarrow> thermostat d \<Longrightarrow> truthy (thermostat_active st)
              \<Longrightarrow> ''dimmer'' @ show_num (map_option (\<lambda>i. i + 1) (thermostat_out st)) @ ''Power'' \<noteq> n"
  shows "findProperty n (state_of (poll_index_js fetch hsv2rgb d)) = findProperty n d"
proof (cases "polled_snapshot fetch d")
  case None
  then show ?thesis by (simp add: findProperty_def poll_without_snapshot)
next
  case (Some st)
  let ?d1 = "fst (apiCall fetch ''state'' ''GET'' d)"
  note fr = apiCall_frame[of fetch "''state''" "''GET''" d]
  have "keeps {n} ?d1 (state_of (reconcile hsv2rgb (thermostat_out st) st ?d1))"
  proof (rule reconcile_keeps)
    show "\<not> dimmerGroup2 ?d1" using g fr(3) by simp
    show "{n} \<subseteq> high_dimmer_names" using n by simp
    show "''dimmer'' @ show_num (map_option (\<lambda>i. i + 1) (thermostat_out st)) @ ''Power'' \<notin> {n}"
      if "thermostat ?d1 \<and> truthy (thermostat_active st)"
      using that c[OF Some] fr(4) by simp
  qed
  then have "findProperty n (state_of (reconcile hsv2rgb (thermostat_out st) st ?d1)) = findProperty n ?d1"
    by (rule keeps_find) simp
  then show ?thesis using fr(1) by (simp add: poll_by_snapshot(2)[OF Some] findProperty_def)
qed

text \<open>What a poll that completes has written for the thermostat.\<close>

lemma run_steps_Done_snoc:
  "run_steps (ss @ [s]) d = Done d' \<Longrightarrow> \<exists>d1. run_steps ss d = Done d1 \<and> s d1 = Done d'"
proof (induction ss arbitrary: d)
  case Nil
  then show ?case by (simp add: run_steps_def split: outcome.splits)
next
  case (Cons a ss)
  show ?case
  proof (cases "a d")
    case (Done x)
    with Cons.prems have "run_steps (ss @ [s]) x = Done d'" by (simp add: run_steps_def)
    from Cons.IH[OF this] Done show ?thesis by (simp add: run_steps_def)
  next
    case (Threw e x)
    with Cons.prems show ?thesis by (simp add: run_steps_def)
  qed
qed

lemma set_value_Done:
  "set_value n a d = Done d' \<Longrightarrow> \<exists>v. a = Inr v \<and> value_of n d' = Some v"
  by (auto simp: set_value_def value_of_setCached split: option.splits sum.splits)

lemma poll_dimmer_only_properties: "keeps {} d (state_of (poll_dimmer state e d))"
proof (cases "(dimmer_absolute e > 1 \<and> dimmerGroup2 d) \<or> (dimmer_absolute e \<le> 1 \<and> dimmerGroup1 d)")
  case True
  show ?thesis
    unfolding poll_dimmer_def Let_def using True
    by (simp only: if_True, intro keeps_run_steps[where Q = "\<lambda>_. True"])
       (auto simp: keeps_set_value)
next
  case False
  then show ?thesis by (auto simp: poll_dimmer_def)
qed

lemma poll_thermostat_writes_valve:
  assumes "poll_thermostat out state d = Done d'" and "thermostat d" and "truthy (thermostat_active state)"
  shows "\<exists>v. power_output state out = Inr v
           \<and> value_of (''dimmer'' @ show_num (map_option (\<lambda>i. i + 1) out) @ ''Power'') d' = Some v"
proof -
  have "run_steps
         ([ set_value ''targetTemperature'' (Inr (thermostat_target_temp state)),
            set_prop_bounds ''targetTemperature''
              (thermostat_min_target_temp state) (thermostat_max_target_temp state),
            set_value ''thermostatMode''
              (Inr (if truthy (thermostat_enabled state)
                    then THERMOSTAT_STATE_TO_MODE (thermostat_mode state) else Str ''off'')),
            set_value ''thermostatState''
              (Inr (if truthy (thermostat_on state) then thermostat_mode state else Str ''off'')) ]
          @ [ set_value (''dimmer'' @ show_num (map_option (\<lambda>i. i + 1) out) @ ''Power'')
                (power_output state out) ]) d = Done d'"
    using assms by (simp add: poll_thermostat_def)
  from run_steps_Done_snoc[OF this] obtain d4
    where "set_value (''dimmer'' @ show_num (map_option (\<lambda>i. i + 1) out) @ ''Power'')
             (power_output state out) d4 = Done d'"
    by blast
  then show ?thesis by (rule set_value_Done)
qed

lemma reconcile_writes_valve:
  assumes r: "reconcile hsv2rgb out state d = Done d'" and t: "thermostat d"
    and a: "truthy (thermostat_active state)"
  shows "\<exists>v. power_output state out = Inr v
           \<and> value_of (''dimmer'' @ show_num (map_option (\<lambda>i. i + 1) out) @ ''Power'') d' = Some v"
proof -
  let ?front = "[ (\<lambda>x. if sensors_brightness state \<noteq> Null
               then set_value ''lightLevel'' (Inr (sensors_brightness state)) x else Done x),
         (\<lambda>x. case sensors_room_temperature state of
                 Some t \<Rightarrow> set_value ''temperature'' (Inr t) x
               | None \<Rightarrow> Done x),
         set_value ''led'' (Inr (led_on state)),
         set_value ''ledColor''
           (Inr (Str (''#'' @ (if led_mode state = Str ''hsv'' then hsv2rgb (led_hsv state)
                               else to_string (led_rgb state))))),
         for_each (poll_dimmer state) (dimmers state),
         for_each (poll_blind state) (blinds state) ]"
  have "run_steps (?front @ [poll_thermostat out state]) d = Done d'"
    using r by (simp add: reconcile_def)
  from run_steps_Done_snoc[OF this] obtain d6
    where f: "run_steps ?front d = Done d6" and p: "poll_thermostat out state d6 = Done d'"
    by blast
  have "keeps {} d (state_of (run_steps ?front d))"
  proof (rule keeps_run_steps[where Q = "\<lambda>_. True"])
    fix s and x :: dingz
    assume mem: "s \<in> set ?front"
    have dl: "keeps {} x (state_of (for_each (poll_dimmer state) (dimmers state) x))"
      by (rule keeps_for_each[where Q = "\<lambda>_. True"]) (simp_all add: poll_dimmer_only_properties)
    have bl: "keeps {} x (state_of (for_each (poll_blind state) (blinds state) x))"
      by (rule keeps_for_each[where Q = "\<lambda>_. True"])
         (simp_all add: keeps_mono[OF poll_blind_keeps])
    from mem show "keeps {} x (state_of (s x))"
      using dl bl by (auto simp: keeps_set_value split: option.splits)
  qed simp_all
  then have "thermostat d6 = thermostat d" using f by (simp add: keeps_fields)
  with t have "thermostat d6" by simp
  from poll_thermostat_writes_valve[OF p this a] show ?thesis .
qed

section \<open>The poll and the dimmer groups\<close>

text \<open>The poll of the sample unit, evaluated.\<close>

lemmas poll_ev = poll_def apiCall_def reconcile_def poll_dimmer_def poll_blind_def poll_thermostat_def
  run_steps_def set_value_def set_prop_bounds_def power_output_def nth_opt_def js_or_def
  THERMOSTAT_STATE_TO_MODE_def sample_fetch_def sample_state_def sample_flags findProperty_def
  setCachedValueAndNotify_def show_int_radix_def show_radix.simps digit_char_def show_num_def
  sample_properties value_of_def new_property_def Let_def

lemma sample_poll_values:
  "value_of ''dimmer3Power'' (state_of (poll sample_fetch (\<lambda>s. s) sample_device)) = Some (Num 7)"
  "value_of ''thermostatMode'' (state_of (poll sample_fetch (\<lambda>s. s) sample_device)) = Some (Str ''heat'')"
  "value_of ''dimmer1Brightness'' (state_of (poll sample_fetch (\<lambda>s. s) sample_device)) = Some (Num 80)"
  "requests (state_of (poll sample_fetch (\<lambda>s. s) sample_device)) = [(''GET'', ''http://10.0.0.2/api/v1/state'')]"
  by (simp_all add: poll_ev)

lemma sample_polls_complete:
  "\<exists>d'. poll sample_fetch (\<lambda>s. s) sample_device = Done d'"
  "\<exists>d'. poll_index_js sample_fetch (\<lambda>s. s) sample_device = Done d'"
  by (simp_all add: poll_ev poll_index_js_def)

lemma sample_snapshots:
  "polled_snapshot sample_fetch sample_device = Some sample_state"
  "polled_snapshot idle_fetch sample_device = Some (sample_state\<lparr> thermostat_active := Bool False \<rparr>)"
  "power_output sample_state (Some 2) = Inr (Num 7)"
  by (simp_all add: polled_snapshot_def apiCall_def sample_fetch_def idle_fetch_def sample_flags
      power_output_def nth_opt_def sample_state_def Let_def)

lemma valve_name_eval:
  "''dimmer'' @ show_num (map_option (\<lambda>i. i + 1) (Some 2)) @ ''Power'' = ''dimmer3Power''"
  "''dimmer'' @ show_num (map_option (\<lambda>i. i + 1) (Some 3)) @ ''Power'' = ''dimmer4Power''"
  by (simp_all add: show_num_def show_int_radix_def show_radix.simps digit_char_def)

text \<open>
  C6, as amended. In a poll, a dimmer entry whose absolute index is above 1 is applied
  only when dimmer group B is present, and one whose index is at most 1 only when group
  A is present. When group B is absent, the loop over the snapshot's dimmers writes none
  of the six properties of dimmers 3 and 4, whatever indices the snapshot holds, and a
  poll of either version leaves their on/off and brightness properties as they were. It
  leaves the power property of dimmer 3 (dimmer 4) as it was unless the device has a
  thermostat, the polled snapshot reports the thermostat active and the thermostat's
  output index is 2 (3); that index is the device's \<open>thermostatOutput\<close> in the bus
  version and \<open>state.thermostat.out\<close> in \<open>index.js\<close>. In that case a poll that completes
  has written the power of that output to the property.
\<close>

theorem poll_dimmer_gating:
  assumes "\<not> dimmerGroup2 d"
  shows "(\<forall>e x. \<not> ((dimmer_absolute e > 1 \<and> dimmerGroup2 x) \<or> (dimmer_absolute e \<le> 1 \<and> dimmerGroup1 x))
            \<longrightarrow> poll_dimmer state e x = Done x)
       \<and> (\<forall>n\<in>high_dimmer_names.
            findProperty n (state_of (for_each (poll_dimmer state) (dimmers state) d)) = findProperty n d)
       \<and> (\<forall>n\<in>{''dimmer3'', ''dimmer3Brightness'', ''dimmer4'', ''dimmer4Brightness''}.
            findProperty n (state_of (poll fetch hsv2rgb d)) = findProperty n d
          \<and> findProperty n (state_of (poll_index_js fetch hsv2rgb d)) = findProperty n d)
       \<and> (\<not> (thermostat d \<and> thermostatOutput d = Some 2
               \<and> (\<exists>st. polled_snapshot fetch d = Some st \<and> truthy (thermostat_active st)))
            \<longrightarrow> findProperty ''dimmer3Power'' (state_of (poll fetch hsv2rgb d)) = findProperty ''dimmer3Power'' d)
       \<and> (\<not> (thermostat d \<and> thermostatOutput d = Some 3
               \<and> (\<exists>st. polled_snapshot fetch d = Some st \<and> truthy (thermostat_active st)))
            \<longrightarrow> findProperty ''dimmer4Power'' (state_of (poll fetch hsv2rgb d)) = findProperty ''dimmer4Power'' d)
       \<and> (\<not> (thermostat d
               \<and> (\<exists>st. polled_snapshot fetch d = Some st \<and> truthy (thermostat_active st)
                      \<and> thermostat_out st = Some 2))
            \<longrightarrow> findProperty ''dimmer3Power'' (state_of (poll_index_js fetch hsv2rgb d))
                  = findProperty ''dimmer3Power'' d)
       \<and> (\<not> (thermostat d
               \<and> (\<exists>st. polled_snapshot fetch d = Some st \<and> truthy (thermostat_active st)
                      \<and> thermostat_out st = Some 3))
            \<longrightarrow> findProperty ''dimmer4Power'' (state_of (poll_index_js fetch hsv2rgb d))
                  = findProperty ''dimmer4Power'' d)
       \<and> (\<forall>st d'. polled_snapshot fetch d = Some st \<and> thermostat d \<and> truthy (thermostat_active st)
                  \<and> poll fetch hsv2rgb d = Done d'
            \<longrightarrow> (thermostatOutput d = Some 2
                    \<longrightarrow> (\<exists>v. power_output st (Some 2) = Inr v \<and> value_of ''dimmer3Power'' d' = Some v))
               \<and> (thermostatOutput d = Some 3
                    \<longrightarrow> (\<exists>v. power_output st (Some 3) = Inr v \<and> value_of ''dimmer4Power'' d' = Some v)))
       \<and> (\<forall>st d'. polled_snapshot fetch d = Some st \<and> thermostat d \<and> truthy (thermostat_active st)
                  \<and> poll_index_js fetch hsv2rgb d = Done d'
            \<longrightarrow> (thermostat_out st = Some 2
                    \<longrightarrow> (\<exists>v. power_output st (Some 2) = Inr v \<and> value_of ''dimmer3Power'' d' = Some v))
               \<and> (thermostat_out st = Some 3
                    \<longrightarrow> (\<exists>v. power_output st (Some 3) = Inr v \<and> value_of ''dimmer4Power'' d' = Some v)))"
proof -
  have skip: "\<forall>e x. \<not> ((dimmer_absolute e > 1 \<and> dimmerGroup2 x) \<or> (dimmer_absolute e \<le> 1 \<and> dimmerGroup1 x))
            \<longrightarrow> poll_dimmer state e x = Done x"
    by (intro allI impI) (rule poll_dimmer_skips)
  have loop: "\<forall>n\<in>high_dimmer_names.
            findProperty n (state_of (for_each (poll_dimmer state) (dimmers state) d)) = findProperty n d"
  proof
    fix n assume n: "n \<in> high_dimmer_names"
    have "keeps high_dimmer_names d (state_of (for_each (poll_dimmer state) (dimmers state) d))"
      by (rule keeps_for_each[where Q = "\<lambda>y. \<not> dimmerGroup2 y"])
         (auto simp: poll_dimmer_keeps keeps_fields assms)
    then show "findProperty n (state_of (for_each (poll_dimmer state) (dimmers state) d)) = findProperty n d"
      using n by (rule keeps_find)
  qed
  have switch: "\<forall>n\<in>{''dimmer3'', ''dimmer3Brightness'', ''dimmer4'', ''dimmer4Brightness''}.
            findProperty n (state_of (poll fetch hsv2rgb d)) = findProperty n d
          \<and> findProperty n (state_of (poll_index_js fetch hsv2rgb d)) = findProperty n d"
  proof
    fix n assume n: "n \<in> {''dimmer3'', ''dimmer3Brightness'', ''dimmer4'', ''dimmer4Brightness''}"
    then have h: "n \<in> high_dimmer_names" by (auto simp: high_dimmer_names_def)
    have ne: "''dimmer'' @ show_num (map_option (\<lambda>i. i + 1) out) @ ''Power'' \<noteq> n" for out
      using valve_power_name(3)[of out] n by blast
    show "findProperty n (state_of (poll fetch hsv2rgb d)) = findProperty n d
          \<and> findProperty n (state_of (poll_index_js fetch hsv2rgb d)) = findProperty n d"
      using poll_power_frame[OF assms h ne] poll_index_js_power_frame[OF assms h ne] by simp
  qed
  have h3: "''dimmer3Power'' \<in> high_dimmer_names" and h4: "''dimmer4Power'' \<in> high_dimmer_names"
    by (simp_all add: high_dimmer_names_def)
  have bus3: "findProperty ''dimmer3Power'' (state_of (poll fetch hsv2rgb d)) = findProperty ''dimmer3Power'' d"
    if "\<not> (thermostat d \<and> thermostatOutput d = Some 2
               \<and> (\<exists>st. polled_snapshot fetch d = Some st \<and> truthy (thermostat_active st)))"
  proof (rule poll_power_frame[OF assms h3])
    fix st
    assume "polled_snapshot fetch d = Some st" "thermostat d" "truthy (thermostat_active st)"
    with that have "thermostatOutput d \<noteq> Some 2" by blast
    then show "''dimmer'' @ show_num (map_option (\<lambda>i. i + 1) (thermostatOutput d)) @ ''Power'' \<noteq> ''dimmer3Power''"
      using valve_power_name(1)[of "thermostatOutput d"] by blast
  qed
  have bus4: "findProperty ''dimmer4Power'' (state_of (poll fetch hsv2rgb d)) = findProperty ''dimmer4Power'' d"
    if "\<not> (thermostat d \<and> thermostatOutput d = Some 3
               \<and> (\<exists>st. polled_snapshot fetch d = Some st \<and> truthy (thermostat_active st)))"
  proof (rule poll_power_frame[OF assms h4])
    fix st
    assume "polled_snapshot fetch d = Some st" "thermostat d" "truthy (thermostat_active st)"
    with that have "thermostatOutput d \<noteq> Some 3" by blast
    then show "''dimmer'' @ show_num (map_option (\<lambda>i. i + 1) (thermostatOutput d)) @ ''Power'' \<noteq> ''dimmer4Power''"
      using valve_power_name(2)[of "thermostatOutput d"] by blast
  qed
  have web3: "findProperty ''dimmer3Power'' (state_of (poll_index_js fetch hsv2rgb d))
                  = findProperty ''dimmer3Power'' d"
    if "\<not> (thermostat d
               \<and> (\<exists>st. polled_snapshot fetch d = Some st \<and> truthy (thermostat_active st)
                      \<and> thermostat_out st = Some 2))"
  proof (rule poll_index_js_power_frame[OF assms h3])
    fix st
    assume "polled_snapshot fetch d = Some st" "thermostat d" "truthy (thermostat_active st)"
    with that have "thermostat_out st \<noteq> Some 2" by blast
    then show "''dimmer'' @ show_num (map_option (\<lambda>i. i + 1) (thermostat_out st)) @ ''Power'' \<noteq> ''dimmer3Power''"
      using valve_power_name(1)[of "thermostat_out st"] by blast
  qed
  have web4: "findProperty ''dimmer4Power'' (state_of (poll_index_js fetch hsv2rgb d))
                  = findProperty ''dimmer4Power'' d"
    if "\<not> (thermostat d
               \<and> (\<exists>st. polled_snapshot fetch d = Some st \<and> truthy (thermostat_active st)
                      \<and> thermostat_out st = Some 3))"
  proof (rule poll_index_js_power_frame[OF assms h4])
    fix st
    assume "polled_snapshot fetch d = Some st" "thermostat d" "truthy (thermostat_active st)"
    with that have "thermostat_out st \<noteq> Some 3" by blast
    then show "''dimmer'' @ show_num (map_option (\<lambda>i. i + 1) (thermostat_out st)) @ ''Power'' \<noteq> ''dimmer4Power''"
      using valve_power_name(2)[of "thermostat_out st"] by blast
  qed
  have written: "\<exists>v. power_output st out = Inr v
           \<and> value_of (''dimmer'' @ show_num (map_option (\<lambda>i. i + 1) out) @ ''Power'') d' = Some v"
    if "reconcile hsv2rgb out st (fst (apiCall fetch ''state'' ''GET'' d)) = Done d'"
      and "thermostat d" and "truthy (thermostat_active st)" for st d' out
  proof (rule reconcile_writes_valve[OF that(1) _ that(3)])
    show "thermostat (fst (apiCall fetch ''state'' ''GET'' d))"
      using that(2) by (simp add: apiCall_frame)
  qed
  have bus: "\<forall>st d'. polled_snapshot fetch d = Some st \<and> thermostat d \<and> truthy (thermostat_active st)
                  \<and> poll fetch hsv2rgb d = Done d'
            \<longrightarrow> (thermostatOutput d = Some 2
                    \<longrightarrow> (\<exists>v. power_output st (Some 2) = Inr v \<and> value_of ''dimmer3Power'' d' = Some v))
               \<and> (thermostatOutput d = Some 3
                    \<longrightarrow> (\<exists>v. power_output st (Some 3) = Inr v \<and> value_of ''dimmer4Power'' d' = Some v))"
  proof (intro allI impI conjI)
    fix st d'
    assume a: "polled_snapshot fetch d = Some st \<and> thermostat d \<and> truthy (thermostat_active st)
                  \<and> poll fetch hsv2rgb d = Done d'"
    then have r: "reconcile hsv2rgb (thermostatOutput d) st (fst (apiCall fetch ''state'' ''GET'' d)) = Done d'"
      using poll_by_snapshot(1)[of fetch d st hsv2rgb] by simp
    note w = written[OF r] a
    show "\<exists>v. power_output st (Some 2) = Inr v \<and> value_of ''dimmer3Power'' d' = Some v"
      if "thermostatOutput d = Some 2"
      using w that valve_name_eval(1) by simp
    show "\<exists>v. power_output st (Some 3) = Inr v \<and> value_of ''dimmer4Power'' d' = Some v"
      if "thermostatOutput d = Some 3"
      using w that valve_name_eval(2) by simp
  qed
  have web: "\<forall>st d'. polled_snapshot fetch d = Some st \<and> thermostat d \<and> truthy (thermostat_active st)
                  \<and> poll_index_js fetch hsv2rgb d = Done d'
            \<longrightarrow> (thermostat_out st = Some 2
                    \<longrightarrow> (\<exists>v. power_output st (Some 2) = Inr v \<and> value_of ''dimmer3Power'' d' = Some v))
               \<and> (thermostat_out st = Some 3
                    \<longrightarrow> (\<exists>v. power_output st (Some 3) = Inr v \<and> value_of ''dimmer4Power'' d' = Some v))"
  proof (intro allI impI conjI)
    fix st d'
    assume a: "polled_snapshot fetch d = Some st \<and> thermostat d \<and> truthy (thermostat_active st)
                  \<and> poll_index_js fetch hsv2rgb d = Done d'"
    then have r: "reconcile hsv2rgb (thermostat_out st) st (fst (apiCall fetch ''state'' ''GET'' d)) = Done d'"
      using poll_by_snapshot(2)[of fetch d st hsv2rgb] by simp
    note w = written[OF r] a
    show "\<exists>v. power_output st (Some 2) = Inr v \<and> value_of ''dimmer3Power'' d' = Some v"
      if "thermostat_out st = Some 2"
      using w that valve_name_eval(1) by simp
    show "\<exists>v. power_output st (Some 3) = Inr v \<and> value_of ''dimmer4Power'' d' = Some v"
      if "thermostat_out st = Some 3"
      using w that valve_name_eval(2) by simp
  qed
  from skip loop switch bus3 bus4 web3 web4 bus web show ?thesis by blast
qed

text \<open>On the sample unit, which has no dimmer group B and a thermostat on output 2: the
  snapshot's entry with absolute index 2 is skipped, a poll whose snapshot reports the
  thermostat idle leaves the power property of dimmer 3 as it was, and a poll whose
  snapshot reports it active writes the power of output 2 there, in both versions.\<close>

theorem poll_dimmer_gating_witness:
  "\<not> dimmerGroup2 sample_device
   \<and> poll_dimmer sample_state \<lparr> dimmer_absolute = 2, dimmer_on = Bool True, dimmer_value = Num 50 \<rparr> sample_device
       = Done sample_device
   \<and> findProperty ''dimmer3'' (state_of (poll sample_fetch (\<lambda>s. s) sample_device)) = None
   \<and> findProperty ''dimmer4Power'' (state_of (poll sample_fetch (\<lambda>s. s) sample_device)) = None
   \<and> findProperty ''dimmer4Power'' (state_of (poll_index_js sample_fetch (\<lambda>s. s) sample_device)) = None
   \<and> polled_snapshot idle_fetch sample_device = Some (sample_state\<lparr> thermostat_active := Bool False \<rparr>)
   \<and> value_of ''dimmer3Power'' (state_of (poll idle_fetch (\<lambda>s. s) sample_device)) = Some Undefined
   \<and> value_of ''dimmer3Power'' (state_of (poll_index_js idle_fetch (\<lambda>s. s) sample_device)) = Some Undefined
   \<and> polled_snapshot sample_fetch sample_device = Some sample_state
   \<and> (\<exists>d'. poll sample_fetch (\<lambda>s. s) sample_device = Done d' \<and> value_of ''dimmer3Power'' d' = Some (Num 7))
   \<and> (\<exists>d'. poll_index_js sample_fetch (\<lambda>s. s) sample_device = Done d'
           \<and> value_of ''dimmer3Power'' d' = Some (Num 7))"
proof -
  have g: "\<not> dimmerGroup2 sample_device" by (rule sample_flags)
  note t = poll_dimmer_gating[OF g, of sample_state sample_fetch "\<lambda>s. s"]
  note u = poll_dimmer_gating[OF g, of sample_state idle_fetch "\<lambda>s. s"]
  have before: "findProperty ''dimmer3'' sample_device = None"
    "findProperty ''dimmer4Power'' sample_device = None"
    "value_of ''dimmer3Power'' sample_device = Some Undefined"
    by (simp_all add: findProperty_def value_of_def sample_properties new_property_def)
  have st: "truthy (thermostat_active sample_state)" "thermostat_out sample_state = Some 2"
    by (simp_all add: sample_state_def)
  have a: "poll_dimmer sample_state \<lparr> dimmer_absolute = 2, dimmer_on = Bool True, dimmer_value = Num 50 \<rparr> sample_device
       = Done sample_device"
    using t g by simp
  have b: "findProperty ''dimmer3'' (state_of (poll sample_fetch (\<lambda>s. s) sample_device)) = None"
    using t before(1) by simp
  have c: "findProperty ''dimmer4Power'' (state_of (poll sample_fetch (\<lambda>s. s) sample_device)) = None"
    using t before(2) by (simp add: sample_flags)
  have c': "findProperty ''dimmer4Power'' (state_of (poll_index_js sample_fetch (\<lambda>s. s) sample_device)) = None"
    using t before(2) by (simp add: sample_snapshots st)
  have i: "findProperty ''dimmer3Power'' (state_of (poll idle_fetch (\<lambda>s. s) sample_device))
             = findProperty ''dimmer3Power'' sample_device"
    using u by (simp add: sample_snapshots)
  have i': "findProperty ''dimmer3Power'' (state_of (poll_index_js idle_fetch (\<lambda>s. s) sample_device))
             = findProperty ''dimmer3Power'' sample_device"
    using u by (simp add: sample_snapshots)
  have idle: "value_of ''dimmer3Power'' (state_of (poll idle_fetch (\<lambda>s. s) sample_device)) = Some Undefined"
    "value_of ''dimmer3Power'' (state_of (poll_index_js idle_fetch (\<lambda>s. s) sample_device)) = Some Undefined"
    using i i' before(3) by (simp_all add: value_of_def)
  from sample_polls_complete(1) obtain d1 where d1: "poll sample_fetch (\<lambda>s. s) sample_device = Done d1"
    by blast
  from sample_polls_complete(2) obtain d2 where d2: "poll_index_js sample_fetch (\<lambda>s. s) sample_device = Done d2"
    by blast
  have w1: "value_of ''dimmer3Power'' d1 = Some (Num 7)"
    using t d1 by (simp add: sample_snapshots sample_flags st)
  have w2: "value_of ''dimmer3Power'' d2 = Some (Num 7)"
    using t d2 by (simp add: sample_snapshots sample_flags st)
  from g a b c c' idle d1 d2 w1 w2 show ?thesis
    by (simp add: sample_snapshots)
qed

text \<open>C6 as stated fails: the sample unit has no dimmer group B and a thermostat on
  output 2, and a poll writes the power property of dimmer 3.\<close>

theorem poll_writes_valve_power_counterexample:
  "\<not> dimmerGroup2 sample_device
   \<and> dimmer_absolute (dimmers sample_state ! 1) = 2
   \<and> value_of ''dimmer3Power'' sample_device = Some Undefined
   \<and> value_of ''dimmer3Power'' (state_of (poll sample_fetch (\<lambda>s. s) sample_device)) = Some (Num 7)"
proof -
  have "value_of ''dimmer3Power'' sample_device = Some Undefined"
    by (simp add: value_of_def findProperty_def sample_properties new_property_def)
  moreover have "dimmer_absolute (dimmers sample_state ! 1) = 2"
    by (simp add: sample_state_def)
  ultimately show ?thesis
    by (simp add: sample_flags sample_poll_values)
qed

section \<open>The poll of a disconnected device\<close>

lemma poll_cycle_disconnected: "\<not> connected d \<Longrightarrow> (poll_cycle fetch hsv2rgb ^^ n) d = d"
  by (induction n) (simp_all add: poll_cycle_def poll_def)

lemma updateFromDiscovery_connects: "connected (state_of (updateFromDiscovery a d))"
  by (cases a) (simp_all add: updateFromDiscovery_def connectedNotify_def Let_def)

text \<open>
  C3. A poll of a device whose connected flag is false returns at once: it issues no
  request and changes no property, however many poll cycles run, until a discovery
  (\<open>updateFromDiscovery\<close>) marks the device connected again.
\<close>

theorem poll_disconnected_noop:
  assumes "\<not> connected d"
  shows "poll fetch hsv2rgb d = Done d
       \<and> poll_index_js fetch hsv2rgb d = Done d
       \<and> requests (state_of (poll fetch hsv2rgb d)) = requests d
       \<and> properties (state_of (poll fetch hsv2rgb d)) = properties d
       \<and> (poll_cycle fetch hsv2rgb ^^ n) d = d
       \<and> connected (state_of (updateFromDiscovery a d))"
  using assms
  by (simp add: poll_def poll_index_js_def poll_cycle_disconnected updateFromDiscovery_connects)

text \<open>The sample unit, disconnected, ignores three poll cycles; after a discovery the
  next poll sends its request.\<close>

theorem poll_disconnected_noop_witness:
  "\<not> connected (sample_device\<lparr> connected := False \<rparr>)
   \<and> poll sample_fetch (\<lambda>s. s) (sample_device\<lparr> connected := False \<rparr>) = Done (sample_device\<lparr> connected := False \<rparr>)
   \<and> requests (state_of (poll sample_fetch (\<lambda>s. s) (sample_device\<lparr> connected := False \<rparr>))) = []
   \<and> (poll_cycle sample_fetch (\<lambda>s. s) ^^ 3) (sample_device\<lparr> connected := False \<rparr>) = sample_device\<lparr> connected := False \<rparr>
   \<and> state_of (updateFromDiscovery (Str ''10.0.0.2'') (sample_device\<lparr> connected := False \<rparr>)) = sample_device
   \<and> requests (state_of (poll sample_fetch (\<lambda>s. s)
        (state_of (updateFromDiscovery (Str ''10.0.0.2'') (sample_device\<lparr> connected := False \<rparr>)))))
       = [(''GET'', ''http://10.0.0.2/api/v1/state'')]"
proof -
  have h: "\<not> connected (sample_device\<lparr> connected := False \<rparr>)" by simp
  note t = poll_disconnected_noop[OF h, of sample_fetch "\<lambda>s. s" 3 "Str ''10.0.0.2''"]
  have r: "requests (state_of (poll sample_fetch (\<lambda>s. s) (sample_device\<lparr> connected := False \<rparr>))) = []"
    using t by (simp add: sample_flags)
  have u: "state_of (updateFromDiscovery (Str ''10.0.0.2'') (sample_device\<lparr> connected := False \<rparr>)) = sample_device"
  proof -
    have "sample_device\<lparr> connected := True \<rparr> = sample_device"
      using sample_flags(2) by (cases sample_device) simp
    moreover have "sample_device\<lparr> address := Str ''10.0.0.2'' \<rparr> = sample_device"
      using sample_flags(1) by (cases sample_device) simp
    ultimately show ?thesis
      by (simp add: updateFromDiscovery_def connectedNotify_def Let_def)
  qed
  from t r u h show ?thesis by (simp add: sample_poll_values)
qed

section \<open>Splitting and replacing text\<close>

lemma replace_first_at:
  "first_occurrence pat s = Some i \<Longrightarrow>
     replace_first pat new s = take i s @ new @ drop (i + length pat) s"
proof (induction s arbitrary: i)
  case Nil
  then show ?case by (simp split: if_splits)
next
  case (Cons c cs)
  show ?case
  proof (cases "startsWith (c # cs) pat")
    case True
    with Cons.prems show ?thesis by simp
  next
    case False
    with Cons.prems obtain j where j: "first_occurrence pat cs = Some j" "i = Suc j"
      by auto
    from Cons.IH[OF j(1)] False j(2) show ?thesis by simp
  qed
qed

lemma split_on_plain: "c \<notin> set w \<Longrightarrow> split_on c w = [w]"
  by (induction w) auto

lemma split_on_append: "c \<notin> set w \<Longrightarrow> split_on c (w @ c # rest) = w # split_on c rest"
  by (induction w) auto

lemma endsWith_append: "endsWith (xs @ p) p"
  by (simp add: endsWith_def)

section \<open>The store under optional writes\<close>

lemma set_value_opt_Inr:
  "set_value_opt n (Inr v) d = Done (if hasProperty n d then setCachedValueAndNotify n v d else d)"
  by (simp add: set_value_opt_def hasProperty_def split: option.splits)

lemma hasProperty_setCached [simp]: "hasProperty k (setCachedValueAndNotify n v d) = hasProperty k d"
  by (simp add: hasProperty_def findProperty_setCached)

lemma three_writes:
  assumes "hasProperty ''targetTemperature'' d"
  shows "\<exists>d'. run_steps
       [ set_value_opt ''thermostatMode'' (Inr x),
         set_value_opt ''thermostatState'' (Inr y),
         set_value_opt ''targetTemperature'' (Inr t) ] d = Done d'
       \<and> value_of ''targetTemperature'' d' = Some t"
proof -
  from assms obtain p where p: "findProperty ''targetTemperature'' d = Some p"
    by (auto simp: hasProperty_def)
  show ?thesis
    by (simp add: run_steps_def set_value_opt_Inr value_of_setCached findProperty_setCached p assms)
qed

lemma thermostat_message_target:
  assumes "map_of kvs ''target'' = Some t" and "hasProperty ''targetTemperature'' d"
  shows "\<exists>d'. run_steps
       [ set_value_opt ''thermostatMode'' (get_member (Obj kvs) ''status''),
         set_value_opt ''thermostatState''
           (bind_arg (get_member (Obj kvs) ''status'') (\<lambda>st.
              if st = Str ''on'' then get_member (Obj kvs) ''mode'' else Inr (Str ''off''))),
         set_value_opt ''targetTemperature'' (get_member (Obj kvs) ''target'') ] d = Done d'
       \<and> value_of ''targetTemperature'' d' = Some t"
proof -
  have "\<exists>v1. get_member (Obj kvs) ''status'' = Inr v1"
    by (auto split: option.splits)
  then obtain v1 where v1: "get_member (Obj kvs) ''status'' = Inr v1" by blast
  have "\<exists>v2. bind_arg (get_member (Obj kvs) ''status'') (\<lambda>st.
              if st = Str ''on'' then get_member (Obj kvs) ''mode'' else Inr (Str ''off'')) = Inr v2"
    by (auto simp: bind_arg_def split: option.splits)
  then obtain v2 where v2: "bind_arg (get_member (Obj kvs) ''status'') (\<lambda>st.
              if st = Str ''on'' then get_member (Obj kvs) ''mode'' else Inr (Str ''off'')) = Inr v2"
    by blast
  have v3: "get_member (Obj kvs) ''target'' = Inr t" using assms(1) by simp
  show ?thesis
    by (subst v2, subst v1, subst v3) (rule three_writes[OF assms(2)])
qed

section \<open>The repair of thermostat state messages\<close>

text \<open>
  C5. A push message on a thermostat state topic, \<open>dingz/<id>/<model>/state/thermostat\<close>,
  whose payload holds the literal \<open>"target:"\<close> where the key \<open>"target":\<close> belongs: the
  first occurrence of the literal is replaced before the text is parsed, the parse of the
  repaired text is what the handler decodes (no decode failure), the message reaches the
  device and the parsed target value becomes the value of its target-temperature
  property.
\<close>

theorem thermostat_target_repaired:
  assumes id: "CHR ''/'' \<notin> set dingzId" and model: "CHR ''/'' \<notin> set model"
    and kind: "model \<notin> {''online'', ''announce'', ''last_alive''}"
    and topic: "topic = ''dingz/'' @ dingzId @ ''/'' @ model @ ''/state/thermostat''"
    and occ: "first_occurrence target_malformed payload = Some i"
    and json: "JSON_parse (take i payload @ target_repaired @ drop (i + length target_malformed) payload)
                 = Some (Obj kvs)"
    and target: "map_of kvs ''target'' = Some t"
    and dev: "devs (''dingz-'' @ dingzId) = Some d"
    and present: "hasProperty ''targetTemperature'' d"
  shows "repair_message topic payload
           = take i payload @ target_repaired @ drop (i + length target_malformed) payload
       \<and> decode_message JSON_parse topic payload = Some (Obj kvs)
       \<and> (\<exists>d'. on_message JSON_parse devs topic payload = Delivered (''dingz-'' @ dingzId) (Done d')
              \<and> value_of ''targetTemperature'' d' = Some t)"
proof -
  have e: "endsWith topic ''state/thermostat''"
  proof -
    have "topic = (''dingz/'' @ dingzId @ ''/'' @ model @ ''/'') @ ''state/thermostat''"
      by (simp add: topic)
    then show ?thesis by (simp only: endsWith_append)
  qed
  have r: "repair_message topic payload
           = take i payload @ target_repaired @ drop (i + length target_malformed) payload"
    by (simp add: repair_message_def e replace_first_at[OF occ])
  have dm: "decode_message JSON_parse topic payload = Some (Obj kvs)"
    by (simp add: decode_message_def r json)
  have p1: "split_on CHR ''/'' ''state/thermostat'' = [''state'', ''thermostat'']"
    by simp
  have p2: "split_on CHR ''/'' (model @ CHR ''/'' # ''state/thermostat'') = [model, ''state'', ''thermostat'']"
    by (simp only: split_on_append[OF model] p1)
  have p3: "split_on CHR ''/'' (dingzId @ CHR ''/'' # (model @ CHR ''/'' # ''state/thermostat''))
              = [dingzId, model, ''state'', ''thermostat'']"
    by (simp only: split_on_append[OF id] p2)
  have p4: "split_on CHR ''/'' (''dingz'' @ CHR ''/'' # (dingzId @ CHR ''/'' # (model @ CHR ''/'' # ''state/thermostat'')))
              = [''dingz'', dingzId, model, ''state'', ''thermostat'']"
  proof -
    have scope: "CHR ''/'' \<notin> set ''dingz''" by simp
    show ?thesis by (simp only: split_on_append[OF scope] p3)
  qed
  have parts: "split_on CHR ''/'' topic = [''dingz'', dingzId, model, ''state'', ''thermostat'']"
  proof -
    have "topic = ''dingz'' @ CHR ''/'' # (dingzId @ CHR ''/'' # (model @ CHR ''/'' # ''state/thermostat''))"
      by (simp add: topic)
    then show ?thesis by (simp only: p4)
  qed
  have path: "split_on CHR ''/'' (join_with CHR ''/'' [model, ''state'', ''thermostat''])
      = [model, ''state'', ''thermostat'']"
  proof -
    have "join_with CHR ''/'' [model, ''state'', ''thermostat''] = model @ CHR ''/'' # ''state/thermostat''"
      by simp
    then show ?thesis by (simp only: p2)
  qed
  have ev: "mqttEvent (join_with CHR ''/'' [model, ''state'', ''thermostat'']) (Obj kvs) d =
     run_steps
       [ set_value_opt ''thermostatMode'' (get_member (Obj kvs) ''status''),
         set_value_opt ''thermostatState''
           (bind_arg (get_member (Obj kvs) ''status'') (\<lambda>st.
              if st = Str ''on'' then get_member (Obj kvs) ''mode'' else Inr (Str ''off''))),
         set_value_opt ''targetTemperature'' (get_member (Obj kvs) ''target'') ]
       (d\<lparr> deviceType := Str model \<rparr>)"
    using kind unfolding mqttEvent_def path by (simp add: nth_opt_def Let_def)
  have present': "hasProperty ''targetTemperature'' (d\<lparr> deviceType := Str model \<rparr>)"
    using present by (simp add: hasProperty_def)
  from thermostat_message_target[OF target present'] obtain d'
    where d': "mqttEvent (join_with CHR ''/'' [model, ''state'', ''thermostat'']) (Obj kvs) d = Done d'"
      "value_of ''targetTemperature'' d' = Some t"
    unfolding ev by blast
  have "on_message JSON_parse devs topic payload = Delivered (''dingz-'' @ dingzId) (Done d')"
    unfolding on_message_def parts by (simp add: nth_opt_def Let_def dm dev[simplified] d'(1)[simplified])
  with r dm d'(2) show ?thesis by blast
qed

text \<open>The sample payload, unparseable as it arrives, sets the target temperature of the
  sample unit to 21.\<close>

theorem thermostat_target_repaired_witness:
  "first_occurrence target_malformed sample_payload = Some 1
   \<and> sample_parse sample_payload = None
   \<and> hasProperty ''targetTemperature'' sample_device
   \<and> decode_message sample_parse ''dingz/aabbcc/dz1/state/thermostat'' sample_payload
       = Some (Obj [(''target'', Num 21)])
   \<and> (\<exists>d'. on_message sample_parse [''dingz-aabbcc'' \<mapsto> sample_device]
               ''dingz/aabbcc/dz1/state/thermostat'' sample_payload
             = Delivered ''dingz-aabbcc'' (Done d')
           \<and> value_of ''targetTemperature'' d' = Some (Num 21))"
proof -
  have occ: "first_occurrence target_malformed sample_payload = Some 1"
    by (simp add: sample_payload_def target_malformed_def startsWith_def)
  have raw: "sample_parse sample_payload = None"
    by (simp add: sample_parse_def sample_payload_def target_malformed_def target_repaired_def)
  have json: "sample_parse (take 1 sample_payload @ target_repaired
                @ drop (1 + length target_malformed) sample_payload)
              = Some (Obj [(''target'', Num 21)])"
    by (simp add: sample_parse_def sample_payload_def target_malformed_def target_repaired_def)
  have present: "hasProperty ''targetTemperature'' sample_device"
    by (simp add: hasProperty_def sample_find)
  have t: "map_of [(''target'', Num 21)] ''target'' = Some (Num 21)" by simp
  have dev: "[''dingz-aabbcc'' \<mapsto> sample_device] (''dingz-'' @ ''aabbcc'') = Some sample_device" by simp
  note inst = thermostat_target_repaired[where dingzId = "''aabbcc''" and model = "''dz1''"
      and topic = "''dingz/aabbcc/dz1/state/thermostat''" and payload = sample_payload and i = 1
      and JSON_parse = sample_parse and kvs = "[(''target'', Num 21)]" and t = "Num 21"
      and devs = "[''dingz-aabbcc'' \<mapsto> sample_device]" and d = sample_device,
      OF _ _ _ _ occ json t dev present]
  have "decode_message sample_parse ''dingz/aabbcc/dz1/state/thermostat'' sample_payload
       = Some (Obj [(''target'', Num 21)])
   \<and> (\<exists>d'. on_message sample_parse [''dingz-aabbcc'' \<mapsto> sample_device]
               ''dingz/aabbcc/dz1/state/thermostat'' sample_payload
             = Delivered ''dingz-aabbcc'' (Done d')
           \<and> value_of ''targetTemperature'' d' = Some (Num 21))"
    using inst by simp
  with occ raw present show ?thesis by simp
qed

end
